theory Spec2Isabelle
  imports Complex_Main "HOL-Library.AList"
begin

section \<open>JavaScript values as the workflows see them\<close>

text \<open>
  The workflows of \<^verbatim>\<open>src/ai/workflows\<close> handle untyped (\<^verbatim>\<open>any\<close>) objects decoded from the
  language model's reply, so the embedding carries JavaScript values and the coercions
  the source applies to them.

  \<^item> A string is its sequence of UTF-16 code units: \<^verbatim>\<open>length\<close> and \<^verbatim>\<open>slice\<close> count those.
  \<^item> A number is an IEEE-754 double: \<open>Fin x\<close> for the real \<open>x\<close> that the double
    represents exactly, an infinity or NaN.  A decimal literal of the source such as
    \<^verbatim>\<open>0.3\<close> is the double nearest to it, \<open>double 0.3\<close>; addition rounds the exact sum to
    the nearest double, ties to even.
  \<^item> An object is an association list of own properties; reading an absent key gives
    \<^verbatim>\<open>undefined\<close>.
\<close>

type_synonym jstring = "nat list"

definition ascii :: "string \<Rightarrow> jstring" where
  "ascii s = map of_char s"

datatype jsnum = Fin real | PosInf | NegInf | NaN

datatype jsval =
    JUndefined
  | JNull
  | JBool bool
  | JNum jsnum
  | JStr jstring
  | JArr "jsval list"
  | JObj "(jstring \<times> jsval) list"

type_synonym jsobj = "(jstring \<times> jsval) list"

datatype exn = TypeError | SyntaxError | NoJSONFound | ClientError

text \<open>
  Built-ins of the JavaScript runtime that the repository calls but does not define are
  parameters of the model: \<^verbatim>\<open>JSON.parse\<close> restricted to texts that start with an opening
  brace (so a successful parse is an object; \<open>None\<close> is a thrown SyntaxError), the
  conversions between strings and numbers, and \<^verbatim>\<open>String.prototype.toLowerCase\<close>.
\<close>

record js_runtime =
  JSON_parse :: "jstring \<Rightarrow> jsobj option"
  StringToNumber :: "jstring \<Rightarrow> jsnum"
  NumberToString :: "jsnum \<Rightarrow> jstring"
  toLowerCase :: "jstring \<Rightarrow> jstring"

definition bindE :: "exn + 'a \<Rightarrow> ('a \<Rightarrow> exn + 'b) \<Rightarrow> exn + 'b" where
  "bindE m f = (case m of Inl e \<Rightarrow> Inl e | Inr x \<Rightarrow> f x)"

subsection \<open>Numbers\<close>

text \<open>
  Rounding to binary64, to nearest with ties to even.  \<open>binade n x\<close> is the binary exponent of
  a positive \<open>x\<close> (the integer \<open>e\<close> with \<open>pow2 e \<le> x < pow2 (e + 1)\<close>), found in at most \<open>n\<close>
  doublings or halvings; 1100 steps cover the exponents of doubles, and what lies beyond is
  subnormal or overflows.  The last binary place kept is 52 places below the exponent and
  never below the place of the smallest subnormal.
\<close>

fun binade :: "nat \<Rightarrow> real \<Rightarrow> int" where
  "binade 0 x = 0"
| "binade (Suc n) x =
     (if x < 1 then binade n (2 * x) - 1
      else if 2 \<le> x then binade n (x / 2) + 1
      else 0)"

definition pow2 :: "int \<Rightarrow> real" where
  "pow2 k = (if 0 \<le> k then 2 ^ nat k else 1 / 2 ^ nat (- k))"

definition round_half_even :: "real \<Rightarrow> int" where
  "round_half_even y =
     (let f = \<lfloor>y\<rfloor>; r = y - of_int f
      in if r < 1 / 2 then f else if 1 / 2 < r then f + 1 else if even f then f else f + 1)"

definition round64 :: "real \<Rightarrow> jsnum" where
  "round64 x =
     (if x = 0 then Fin 0
      else let q = max (binade 1100 \<bar>x\<bar>) (- 1022) - 52;
               r = of_int (round_half_even (x / pow2 q)) * pow2 q
           in if pow2 1024 \<le> r then PosInf
              else if r \<le> - pow2 1024 then NegInf
              else Fin r)"

definition double :: "real \<Rightarrow> jsnum" where
  \<comment> \<open>the value of a decimal literal\<close>
  "double x = round64 x"

fun num_add :: "jsnum \<Rightarrow> jsnum \<Rightarrow> jsnum" where
  "num_add NaN _ = NaN"
| "num_add _ NaN = NaN"
| "num_add (Fin a) (Fin b) = round64 (a + b)"
| "num_add PosInf NegInf = NaN"
| "num_add NegInf PosInf = NaN"
| "num_add PosInf _ = PosInf"
| "num_add _ PosInf = PosInf"
| "num_add NegInf _ = NegInf"
| "num_add _ NegInf = NegInf"

fun num_lt :: "jsnum \<Rightarrow> jsnum \<Rightarrow> bool" where
  "num_lt NaN _ = False"
| "num_lt _ NaN = False"
| "num_lt (Fin a) (Fin b) = (a < b)"
| "num_lt (Fin _) PosInf = True"
| "num_lt (Fin _) NegInf = False"
| "num_lt PosInf _ = False"
| "num_lt NegInf NegInf = False"
| "num_lt NegInf _ = True"

definition num_gt :: "jsnum \<Rightarrow> jsnum \<Rightarrow> bool" where
  "num_gt a b = num_lt b a"

definition num_ge :: "jsnum \<Rightarrow> jsnum \<Rightarrow> bool" where
  \<comment> \<open>\<^verbatim>\<open>a >= b\<close>: false when either side is NaN, otherwise the negation of \<^verbatim>\<open>a < b\<close>\<close>
  "num_ge a b = (a \<noteq> NaN \<and> b \<noteq> NaN \<and> \<not> num_lt a b)"

definition num_le :: "jsnum \<Rightarrow> jsnum \<Rightarrow> bool" where
  "num_le a b = num_ge b a"

definition Math_min :: "jsnum \<Rightarrow> jsnum \<Rightarrow> jsnum" where
  "Math_min a b = (if a = NaN \<or> b = NaN then NaN else if num_lt b a then b else a)"

subsection \<open>Truthiness, property reads\<close>

fun truthy :: "jsval \<Rightarrow> bool" where
  "truthy JUndefined = False"
| "truthy JNull = False"
| "truthy (JBool b) = b"
| "truthy (JNum n) = (n \<noteq> Fin 0 \<and> n \<noteq> NaN)"
| "truthy (JStr s) = (s \<noteq> [])"
| "truthy (JArr _) = True"
| "truthy (JObj _) = True"

definition js_or :: "jsval \<Rightarrow> jsval \<Rightarrow> jsval" where
  \<comment> \<open>\<^verbatim>\<open>a || b\<close>\<close>
  "js_or a b = (if truthy a then a else b)"

definition get :: "jsobj \<Rightarrow> string \<Rightarrow> jsval" where
  \<comment> \<open>\<^verbatim>\<open>obj.key\<close> for a key that \<^verbatim>\<open>Object.prototype\<close> does not define\<close>
  "get obj k = (case map_of obj (ascii k) of None \<Rightarrow> JUndefined | Some v \<Rightarrow> v)"

definition put :: "string \<Rightarrow> jsval \<Rightarrow> jsobj \<Rightarrow> jsobj" where
  \<comment> \<open>\<^verbatim>\<open>{...obj, key: v}\<close>\<close>
  "put k v obj = AList.update (ascii k) v obj"

fun js_length :: "jsval \<Rightarrow> jsval" where
  \<comment> \<open>\<^verbatim>\<open>v.length\<close> for a value that is neither \<^verbatim>\<open>undefined\<close> nor \<^verbatim>\<open>null\<close>\<close>
  "js_length (JStr s) = JNum (Fin (real (length s)))"
| "js_length (JArr xs) = JNum (Fin (real (length xs)))"
| "js_length (JObj kvs) = get kvs ''length''"
| "js_length _ = JUndefined"

subsection \<open>Coercions\<close>

text \<open>
  Converting an object decoded from JSON to a primitive throws a TypeError exactly when
  it has an own property \<^verbatim>\<open>toString\<close>: that property is not callable and shadows
  \<^verbatim>\<open>Object.prototype.toString\<close>, and \<^verbatim>\<open>valueOf\<close> never yields a primitive.  An array
  converts through \<^verbatim>\<open>join\<close>, which converts each element that is neither \<^verbatim>\<open>null\<close> nor
  \<^verbatim>\<open>undefined\<close>.
\<close>

fun join_with :: "jstring \<Rightarrow> jstring list \<Rightarrow> jstring" where
  "join_with sep [] = []"
| "join_with sep [x] = x"
| "join_with sep (x # y # ys) = x @ sep @ join_with sep (y # ys)"

fun coercion_throws :: "jsval \<Rightarrow> bool" where
  "coercion_throws (JObj kvs) = (map_of kvs (ascii ''toString'') \<noteq> None)"
| "coercion_throws (JArr xs) = list_ex coercion_throws xs"
| "coercion_throws _ = False"

fun prim_string :: "js_runtime \<Rightarrow> jsval \<Rightarrow> jstring" where
  "prim_string rt JUndefined = ascii ''undefined''"
| "prim_string rt JNull = ascii ''null''"
| "prim_string rt (JBool b) = (if b then ascii ''true'' else ascii ''false'')"
| "prim_string rt (JNum n) = NumberToString rt n"
| "prim_string rt (JStr s) = s"
| "prim_string rt (JArr xs) =
     join_with (ascii '','')
       (map (\<lambda>x. if x = JUndefined \<or> x = JNull then [] else prim_string rt x) xs)"
| "prim_string rt (JObj kvs) = ascii ''[object Object]''"

fun yields_string :: "jsval \<Rightarrow> bool" where
  \<comment> \<open>the primitive of the value is a string\<close>
  "yields_string (JStr _) = True"
| "yields_string (JArr _) = True"
| "yields_string (JObj _) = True"
| "yields_string _ = False"

fun prim_number :: "js_runtime \<Rightarrow> jsval \<Rightarrow> jsnum" where
  "prim_number rt JUndefined = NaN"
| "prim_number rt JNull = Fin 0"
| "prim_number rt (JBool b) = (if b then Fin 1 else Fin 0)"
| "prim_number rt (JNum n) = n"
| "prim_number rt v = StringToNumber rt (prim_string rt v)"

definition to_string :: "js_runtime \<Rightarrow> jsval \<Rightarrow> exn + jstring" where
  "to_string rt v = (if coercion_throws v then Inl TypeError else Inr (prim_string rt v))"

definition to_number :: "js_runtime \<Rightarrow> jsval \<Rightarrow> exn + jsnum" where
  "to_number rt v = (if coercion_throws v then Inl TypeError else Inr (prim_number rt v))"

definition js_add :: "js_runtime \<Rightarrow> jsval \<Rightarrow> jsval \<Rightarrow> exn + jsval" where
  \<comment> \<open>\<^verbatim>\<open>a + b\<close>: concatenation when either primitive is a string, numeric addition otherwise\<close>
  "js_add rt a b =
     (if coercion_throws a \<or> coercion_throws b then Inl TypeError
      else if yields_string a \<or> yields_string b
        then Inr (JStr (prim_string rt a @ prim_string rt b))
      else Inr (JNum (num_add (prim_number rt a) (prim_number rt b))))"

definition js_lt :: "js_runtime \<Rightarrow> jsval \<Rightarrow> jsnum \<Rightarrow> exn + bool" where
  \<comment> \<open>\<^verbatim>\<open>v < n\<close> against a number\<close>
  "js_lt rt v n = bindE (to_number rt v) (\<lambda>x. Inr (num_lt x n))"

definition js_gt :: "js_runtime \<Rightarrow> jsval \<Rightarrow> jsnum \<Rightarrow> exn + bool" where
  "js_gt rt v n = bindE (to_number rt v) (\<lambda>x. Inr (num_gt x n))"

definition js_ge :: "js_runtime \<Rightarrow> jsval \<Rightarrow> jsnum \<Rightarrow> exn + bool" where
  "js_ge rt v n = bindE (to_number rt v) (\<lambda>x. Inr (num_ge x n))"

fun str_includes :: "jstring \<Rightarrow> jstring \<Rightarrow> bool" where
  \<comment> \<open>\<^verbatim>\<open>text.includes(k)\<close>\<close>
  "str_includes [] k = (k = [])"
| "str_includes (c # cs) k = (take (length k) (c # cs) = k \<or> str_includes cs k)"

section \<open>Shared shapes: tasks, conflicts, results\<close>

datatype TaskPriority = LOW | MEDIUM | HIGH | URGENT

datatype jsdate = NewDate jsval

text \<open>
  The task objects the workflows build (the \<^verbatim>\<open>task\<close> of a result is \<open>None\<close> when it is
  \<^verbatim>\<open>undefined\<close>).  One record covers the object literals of
  \<^verbatim>\<open>validateAndSuggest\<close>, \<^verbatim>\<open>validateAndFinalize\<close> and \<^verbatim>\<open>createBasicTask\<close>; a key that a
  literal does not write is \<open>JUndefined\<close> here, as a read of it is in the source.
\<close>

record ai_metadata =
  extractedEntities :: jsval
  suggestedPriority :: jsval
  priorityReasoning :: jsval
  complexity :: jsval
  riskFactors :: jsval
  riskLevel :: jsval
  metaConfidence :: jsval
  urgencyIndicators :: jsval
  fallback :: jsval
  workflowVersion :: jsval
  processedSteps :: jsval

record task_object =
  title :: jsval
  description :: jsval
  dueDate :: "jsdate option"
  priority :: TaskPriority
  tags :: jsval
  estimatedDuration :: jsval
  aiMetadata :: ai_metadata

record conflict =
  conflict_type :: jstring
  message :: jstring
  suggestion :: jsval
  severity :: jsval

record TaskCreationResult =
  task :: "task_object option"
  needsConfirmation :: bool
  suggestions :: "jstring list"
  conflicts :: "conflict list option"
  confidence :: jsval

text \<open>
  The completion client (\<^verbatim>\<open>ollama.generate\<close>) is an external service: each call either
  rejects or resolves with a response text.
\<close>

datatype gen_outcome = GenFails | GenResponds jstring

subsection \<open>The message literals of the source, as UTF-16 code units\<close>

definition msg_workflow_error :: jstring where
  \<comment> \<open>"an error occurred while creating the task; please check the content again"\<close>
  "msg_workflow_error = [51089, 50629, 32, 49373, 49457, 32, 51473, 32, 50724, 47448, 44032, 32,
     48156, 49373, 54664, 49845, 45768, 45796, 46, 32, 45236, 50857, 51012, 32, 45796, 49884, 32,
     54869, 51064, 54644, 51452, 49464, 50836, 46]"

definition msg_more_specific :: jstring where
  \<comment> \<open>"please write the task content more specifically"\<close>
  "msg_more_specific = [51089, 50629, 32, 45236, 50857, 51012, 32, 45908, 32, 44396, 52404, 51201,
     51004, 47196, 32, 51089, 49457, 54644, 51452, 49464, 50836, 46]"

definition msg_urgent_recheck :: jstring where
  \<comment> \<open>"this is an urgent task; please check the content again"\<close>
  "msg_urgent_recheck = [44596, 44553, 54620, 32, 51089, 50629, 51077, 45768, 45796, 46, 32, 45236,
     50857, 51012, 32, 45796, 49884, 32, 54869, 51064, 54644, 51452, 49464, 50836, 46]"

definition msg_set_due_date :: jstring where
  \<comment> \<open>"this is an important task; setting a due date is recommended"\<close>
  "msg_set_due_date = [51473, 50836, 54620, 32, 51089, 50629, 51077, 45768, 45796, 46, 32, 47560,
     44048, 51068, 51012, 32, 49444, 51221, 54616, 45716, 32, 44163, 51012, 32, 44428, 51109, 54633,
     45768, 45796, 46]"

definition msg_split_subtasks :: jstring where
  \<comment> \<open>"this is a complex task; consider dividing it into subtasks"\<close>
  "msg_split_subtasks = [48373, 51105, 54620, 32, 51089, 50629, 51077, 45768, 45796, 46, 32, 54616,
     50948, 32, 51089, 50629, 51004, 47196, 32, 45208, 45572, 45716, 32, 44163, 51012, 32, 44256,
     47140, 54644, 48372, 49464, 50836, 46]"

definition msg_long_running :: jstring where
  \<comment> \<open>"a long-running task that may affect other tasks"\<close>
  "msg_long_running = [51109, 49884, 44036, 32, 49548, 50836, 32, 51089, 50629, 51004, 47196, 32,
     45796, 47480, 32, 51089, 50629, 50640, 32, 50689, 54693, 51012, 32, 51460, 32, 49688, 32, 51080,
     49845, 45768, 45796, 46]"

definition msg_split_steps :: jstring where
  \<comment> \<open>"consider dividing the task into several steps"\<close>
  "msg_split_steps = [51089, 50629, 51012, 32, 50668, 47084, 32, 45800, 44228, 47196, 32, 45208,
     45572, 45716, 32, 44163, 51012, 32, 44256, 47140, 54644, 48372, 49464, 50836, 46]"

definition txt_keyword_analysis :: jstring where
  \<comment> \<open>"keyword-based analysis"\<close>
  "txt_keyword_analysis = [53412, 50892, 46300, 32, 44592, 48152, 32, 48516, 49437]"

definition txt_work_hours :: jstring where
  "txt_work_hours = [50629, 47924, 32, 49884, 44036]"

definition txt_none :: jstring where
  \<comment> \<open>"none", the placeholder of the prompt\<close>
  "txt_none = [50630, 51020]"

definition txt_undecided :: jstring where
  "txt_undecided = [48120, 51221]"

definition kw_urgent_ko :: jstring where
  "kw_urgent_ko = [44596, 44553]"

definition kw_important_ko :: jstring where
  "kw_important_ko = [51473, 50836]"

definition kw_later_ko :: jstring where
  "kw_later_ko = [45208, 51473, 50640]"

section \<open>TaskCreationWorkflow (task-creation.workflow.ts)\<close>

definition match_braces :: "jstring \<Rightarrow> jstring option" where
  \<comment> \<open>\<^verbatim>\<open>jsonString.match(/\{[\s\S]*\}/)\<close>: from the first opening brace (code unit 123) to the
     last closing brace (125) after it\<close>
  "match_braces s =
     (let t = dropWhile (\<lambda>c. c \<noteq> 123) s;
          u = rev (dropWhile (\<lambda>c. c \<noteq> 125) (rev t))
      in if u = [] then None else Some u)"

definition parseJSON :: "js_runtime \<Rightarrow> jstring \<Rightarrow> jsobj" where
  "parseJSON rt jsonString =
     (case (case match_braces jsonString of
              Some m \<Rightarrow> (case JSON_parse rt m of Some obj \<Rightarrow> Inr obj | None \<Rightarrow> Inl SyntaxError)
            | None \<Rightarrow> Inl NoJSONFound) of
        Inr obj \<Rightarrow> obj
      | Inl e \<Rightarrow> [])"

definition length_exceeds :: "js_runtime \<Rightarrow> jsval \<Rightarrow> real \<Rightarrow> exn + bool" where
  \<comment> \<open>the condition \<^verbatim>\<open>v && v.length > n\<close>\<close>
  "length_exceeds rt v n = (if truthy v then js_gt rt (js_length v) (Fin n) else Inr False)"

definition add_if :: "bool \<Rightarrow> jsnum \<Rightarrow> jsnum \<Rightarrow> jsnum" where
  \<comment> \<open>\<^verbatim>\<open>if (cond) { confidence += d; }\<close>\<close>
  "add_if cond c d = (if cond then num_add c d else c)"

definition calculateExtractionConfidence :: "js_runtime \<Rightarrow> jsobj \<Rightarrow> exn + jsnum" where
  "calculateExtractionConfidence rt extractedInfo =
     bindE (length_exceeds rt (get extractedInfo ''title'') 5) (\<lambda>clearTitle.
     bindE (length_exceeds rt (get extractedInfo ''description'') 10) (\<lambda>hasDescription.
     bindE (length_exceeds rt (get extractedInfo ''tags'') 0) (\<lambda>hasTags.
       Inr (Math_min
              (add_if hasTags
                (add_if (truthy (get extractedInfo ''dueDate''))
                  (add_if hasDescription
                    (add_if clearTitle (double 0.5) (double 0.2))
                    (double 0.1))
                  (double 0.1))
                (double 0.1))
              (Fin 1)))))"

definition truncate50 :: "jstring \<Rightarrow> jstring" where
  \<comment> \<open>\<^verbatim>\<open>input.length > 50 ? input.slice(0, 50) + "..." : input\<close>\<close>
  "truncate50 input = (if length input > 50 then take 50 input @ ascii ''...'' else input)"

definition fallbackExtraction :: "jstring \<Rightarrow> jsobj" where
  "fallbackExtraction input =
     [(ascii ''title'', JStr (truncate50 input)),
      (ascii ''description'', if length input > 100 then JStr input else JUndefined),
      (ascii ''tags'', JArr []),
      (ascii ''entities'', JObj [(ascii ''people'', JArr []), (ascii ''places'', JArr []),
                                 (ascii ''organizations'', JArr [])]),
      (ascii ''urgencyIndicators'', JArr []),
      (ascii ''complexity'', JNum (Fin 2)),
      (ascii ''estimatedDuration'', JNum (Fin 30)),
      (ascii ''confidence'', JNum (double 0.3))]"

definition extractDetailedInformation :: "js_runtime \<Rightarrow> gen_outcome \<Rightarrow> jstring \<Rightarrow> jsobj" where
  "extractDetailedInformation rt reply input =
     (case (case reply of
              GenFails \<Rightarrow> Inl ClientError
            | GenResponds response \<Rightarrow>
                (let result = parseJSON rt response
                 in bindE (calculateExtractionConfidence rt result)
                      (\<lambda>c. Inr (put ''confidence'' (JNum c) result)))) of
        Inr extracted \<Rightarrow> extracted
      | Inl e \<Rightarrow> fallbackExtraction input)"

definition fallbackPriorityAnalysis :: "js_runtime \<Rightarrow> jsobj \<Rightarrow> exn + jsobj" where
  "fallbackPriorityAnalysis rt info =
     bindE (js_add rt (get info ''title'') (JStr (ascii '' ''))) (\<lambda>a.
     bindE (js_add rt a (js_or (get info ''description'') (JStr []))) (\<lambda>b.
       (case b of
          JStr s \<Rightarrow>
            (let text = toLowerCase rt s;
                 priority =
                   (if str_includes text (ascii ''urgent'') \<or> str_includes text kw_urgent_ko
                         \<or> str_includes text (ascii ''asap'') then ascii ''urgent''
                    else if str_includes text (ascii ''important'') \<or> str_includes text kw_important_ko
                         \<or> str_includes text (ascii ''critical'') then ascii ''high''
                    else if str_includes text (ascii ''later'') \<or> str_includes text kw_later_ko
                         \<or> str_includes text (ascii ''when possible'') then ascii ''low''
                    else ascii ''medium'')
             in Inr [(ascii ''priority'', JStr priority),
                     (ascii ''reasoning'', JStr txt_keyword_analysis),
                     (ascii ''riskFactors'', JArr []),
                     (ascii ''recommendedTimeSlot'', JStr txt_work_hours),
                     (ascii ''confidence'', JNum (double 0.5))])
        | _ \<Rightarrow> Inl TypeError)))"

definition optional_join :: "js_runtime \<Rightarrow> jsval \<Rightarrow> jstring \<Rightarrow> exn + jsval" where
  \<comment> \<open>\<^verbatim>\<open>v?.join(sep)\<close>: only an array has a callable \<^verbatim>\<open>join\<close>\<close>
  "optional_join rt v sep =
     (case v of
        JUndefined \<Rightarrow> Inr JUndefined
      | JNull \<Rightarrow> Inr JUndefined
      | JArr xs \<Rightarrow>
          (if list_ex coercion_throws xs then Inl TypeError
           else Inr (JStr (join_with sep
                  (map (\<lambda>x. if x = JUndefined \<or> x = JNull then [] else prim_string rt x) xs))))
      | _ \<Rightarrow> Inl TypeError)"

definition priority_prompt :: "js_runtime \<Rightarrow> jsobj \<Rightarrow> exn + jstring list" where
  \<comment> \<open>the interpolations of the prompt of \<^verbatim>\<open>analyzeTaskComplexity\<close>, in order; the fixed text
     of the template is left out\<close>
  "priority_prompt rt extractedInfo =
     bindE (to_string rt (get extractedInfo ''title'')) (\<lambda>t.
     bindE (to_string rt (js_or (get extractedInfo ''description'') (JStr txt_none))) (\<lambda>d.
     bindE (to_string rt (js_or (get extractedInfo ''dueDate'') (JStr txt_none))) (\<lambda>due.
     bindE (to_string rt (js_or (get extractedInfo ''complexity'') (JStr txt_undecided))) (\<lambda>c.
     bindE (optional_join rt (get extractedInfo ''urgencyIndicators'') (ascii '', '')) (\<lambda>j.
     bindE (to_string rt (js_or j (JStr txt_none))) (\<lambda>u.
       Inr [t, d, due, c, u]))))))"

definition analyzeTaskComplexity :: "js_runtime \<Rightarrow> gen_outcome \<Rightarrow> jsobj \<Rightarrow> exn + jsobj" where
  "analyzeTaskComplexity rt reply extractedInfo =
     bindE (priority_prompt rt extractedInfo) (\<lambda>prompt.
       (case reply of
          GenResponds response \<Rightarrow> Inr (parseJSON rt response)
        | GenFails \<Rightarrow> fallbackPriorityAnalysis rt extractedInfo))"

definition mapPriority :: "js_runtime \<Rightarrow> jsval \<Rightarrow> exn + TaskPriority" where
  \<comment> \<open>\<^verbatim>\<open>switch (priority?.toLowerCase())\<close>: a value that is not a string, \<^verbatim>\<open>null\<close> or
     \<^verbatim>\<open>undefined\<close> has no callable \<^verbatim>\<open>toLowerCase\<close>\<close>
  "mapPriority rt p =
     (case p of
        JUndefined \<Rightarrow> Inr MEDIUM
      | JNull \<Rightarrow> Inr MEDIUM
      | JStr s \<Rightarrow>
          (let l = toLowerCase rt s
           in if l = ascii ''urgent'' then Inr URGENT
              else if l = ascii ''high'' then Inr HIGH
              else if l = ascii ''low'' then Inr LOW
              else Inr MEDIUM)
      | _ \<Rightarrow> Inl TypeError)"

definition new_Date :: "jsval \<Rightarrow> exn + jsdate" where
  \<comment> \<open>\<^verbatim>\<open>new Date(v)\<close> converts an object argument to a primitive first\<close>
  "new_Date v = (if coercion_throws v then Inl TypeError else Inr (NewDate v))"

definition resource_conflict :: conflict where
  "resource_conflict =
     \<lparr>conflict_type = ascii ''resource'', message = msg_long_running,
      suggestion = JStr msg_split_steps, severity = JUndefined\<rparr>"

definition overall_confidence :: "js_runtime \<Rightarrow> jsobj \<Rightarrow> jsobj \<Rightarrow> exn + jsnum" where
  \<comment> \<open>\<^verbatim>\<open>Math.min((extractedInfo.confidence || 0.5) + (analysis.confidence || 0.5), 1.0)\<close>\<close>
  "overall_confidence rt extractedInfo analysis =
     bindE (js_add rt (js_or (get extractedInfo ''confidence'') (JNum (double 0.5)))
                      (js_or (get analysis ''confidence'') (JNum (double 0.5)))) (\<lambda>total.
       Inr (Math_min (prim_number rt total) (Fin 1)))"

definition final_task :: "js_runtime \<Rightarrow> jsobj \<Rightarrow> jsobj \<Rightarrow> jsnum \<Rightarrow> exn + task_object" where
  \<comment> \<open>the object literal \<^verbatim>\<open>finalTask\<close> of \<^verbatim>\<open>validateAndSuggest\<close>\<close>
  "final_task rt extractedInfo analysis overallConfidence =
     bindE (if truthy (get extractedInfo ''dueDate'')
            then bindE (new_Date (get extractedInfo ''dueDate'')) (\<lambda>d. Inr (Some d))
            else Inr None) (\<lambda>due.
     bindE (mapPriority rt (get analysis ''priority'')) (\<lambda>prio.
       Inr \<lparr>title = get extractedInfo ''title'',
            description = get extractedInfo ''description'',
            dueDate = due,
            priority = prio,
            tags = js_or (get extractedInfo ''tags'') (JArr []),
            estimatedDuration = js_or (get extractedInfo ''estimatedDuration'') (JNum (Fin 30)),
            aiMetadata =
              \<lparr>extractedEntities = js_or (get extractedInfo ''entities'')
                 (JObj [(ascii ''people'', JArr []), (ascii ''places'', JArr []),
                        (ascii ''organizations'', JArr []), (ascii ''dates'', JArr [])]),
               suggestedPriority = get analysis ''priority'',
               priorityReasoning = get analysis ''reasoning'',
               complexity = get extractedInfo ''complexity'',
               riskFactors = js_or (get analysis ''riskFactors'') (JArr []),
               riskLevel = JUndefined,
               metaConfidence = JNum overallConfidence,
               urgencyIndicators = js_or (get extractedInfo ''urgencyIndicators'') (JArr []),
               fallback = JUndefined,
               workflowVersion = JUndefined,
               processedSteps = JUndefined\<rparr>\<rparr>))"

definition validateAndSuggest :: "js_runtime \<Rightarrow> jsobj \<Rightarrow> jsobj \<Rightarrow> exn + TaskCreationResult" where
  "validateAndSuggest rt extractedInfo analysis =
     bindE (overall_confidence rt extractedInfo analysis) (\<lambda>overallConfidence.
     bindE (js_ge rt (get extractedInfo ''complexity'') (Fin 4)) (\<lambda>complexTask.
     bindE (js_gt rt (get extractedInfo ''estimatedDuration'') (Fin 240)) (\<lambda>longTask.
     bindE (final_task rt extractedInfo analysis overallConfidence) (\<lambda>finalTask.
       (let lowConfidence = num_lt overallConfidence (double 0.6);
            urgentUnsure = (get analysis ''priority'' = JStr (ascii ''urgent'')
                             \<and> num_lt overallConfidence (double 0.8));
            highNoDueDate = (get analysis ''priority'' = JStr (ascii ''high'')
                             \<and> \<not> truthy (get extractedInfo ''dueDate''))
        in Inr \<lparr>task = Some finalTask,
                needsConfirmation = (lowConfidence \<or> urgentUnsure \<or> longTask),
                suggestions =
                  (if lowConfidence then [msg_more_specific] else [])
                  @ (if urgentUnsure then [msg_urgent_recheck] else [])
                  @ (if highNoDueDate then [msg_set_due_date] else [])
                  @ (if complexTask then [msg_split_subtasks] else []),
                conflicts = Some (if longTask then [resource_conflict] else []),
                confidence = JNum overallConfidence\<rparr>)))))"

definition createBasicTask :: "jstring \<Rightarrow> task_object" where
  "createBasicTask input =
     \<lparr>title = JStr (truncate50 input),
      description = JStr input,
      dueDate = None,
      priority = MEDIUM,
      tags = JArr [],
      estimatedDuration = JNum (Fin 30),
      aiMetadata =
        \<lparr>extractedEntities =
           JObj [(ascii ''people'', JArr []), (ascii ''places'', JArr []),
                 (ascii ''organizations'', JArr []), (ascii ''dates'', JArr [])],
         suggestedPriority = JUndefined,
         priorityReasoning = JUndefined,
         complexity = JUndefined,
         riskFactors = JUndefined,
         riskLevel = JUndefined,
         metaConfidence = JNum (double 0.3),
         urgencyIndicators = JUndefined,
         fallback = JBool True,
         workflowVersion = JUndefined,
         processedSteps = JUndefined\<rparr>\<rparr>"

definition execute_try :: "js_runtime \<Rightarrow> gen_outcome \<Rightarrow> gen_outcome \<Rightarrow> jstring \<Rightarrow> exn + TaskCreationResult" where
  \<comment> \<open>the \<^verbatim>\<open>try\<close> block of \<^verbatim>\<open>execute\<close>; the two outcomes are those of the first and of the
     second call of the completion client\<close>
  "execute_try rt reply1 reply2 input =
     (let extractedInfo = extractDetailedInformation rt reply1 input
      in bindE (analyzeTaskComplexity rt reply2 extractedInfo) (\<lambda>analysis.
           validateAndSuggest rt extractedInfo analysis))"

definition execute :: "js_runtime \<Rightarrow> gen_outcome \<Rightarrow> gen_outcome \<Rightarrow> jstring \<Rightarrow> jstring \<Rightarrow> TaskCreationResult" where
  "execute rt reply1 reply2 input userId =
     (case execute_try rt reply1 reply2 input of
        Inr validation \<Rightarrow> validation
      | Inl error \<Rightarrow>
          \<lparr>task = Some (createBasicTask input),
           needsConfirmation = True,
           suggestions = [msg_workflow_error],
           conflicts = None,
           confidence = JNum (double 0.3)\<rparr>)"

section \<open>AdvancedTaskCreationWorkflow (project-analysis.workflow.ts)\<close>

text \<open>
  The second workflow threads a state object through four steps.  Its \<^verbatim>\<open>parseJSON\<close> and
  \<^verbatim>\<open>mapPriority\<close> are textually those of the first workflow and are shared here.
\<close>

record TaskCreationState =
  input :: jstring
  userId :: jstring
  extractedInfo :: "jsobj option"
  priorityAnalysis :: "jsobj option"
  needsHumanReview :: bool
  st_conflicts :: "conflict list"
  st_suggestions :: "jstring list"
  finalTask :: "task_object option"
  st_confidence :: jsval
  currentStep :: jstring

record AdvancedResult = TaskCreationResult +
  workflowPath :: "jstring list"

definition opt_get :: "jsobj option \<Rightarrow> string \<Rightarrow> jsval" where
  \<comment> \<open>\<^verbatim>\<open>obj?.key\<close>\<close>
  "opt_get obj k = (case obj of None \<Rightarrow> JUndefined | Some kvs \<Rightarrow> get kvs k)"

definition adv_very_complex :: jstring where
  \<comment> \<open>"this is a very complex task"\<close>
  "adv_very_complex = [47588, 50864, 32, 48373, 51105, 54620, 32, 51089, 50629, 51077, 45768, 45796]"

definition adv_split_steps :: jstring where
  "adv_split_steps = [51089, 50629, 51012, 32, 50668, 47084, 32, 45800, 44228, 47196, 32, 45208,
     45572, 45716, 32, 44163, 51012, 32, 44428, 51109, 54633, 45768, 45796]"

definition adv_long_running :: jstring where
  \<comment> \<open>"this is a long-running task"\<close>
  "adv_long_running = [51109, 49884, 44036, 32, 49548, 50836, 32, 51089, 50629, 51077, 45768, 45796]"

definition adv_schedule :: jstring where
  "adv_schedule = [45796, 47480, 32, 51089, 50629, 46308, 44284, 51032, 32, 49828, 52992, 51460, 32,
     51312, 51221, 51060, 32, 54596, 50836, 54624, 32, 49688, 32, 51080, 49845, 45768, 45796]"

definition adv_urgent_complex :: jstring where
  \<comment> \<open>"this task is urgent but complex"\<close>
  "adv_urgent_complex = [44596, 44553, 54616, 51648, 47564, 32, 48373, 51105, 54620, 32, 51089,
     50629, 51077, 45768, 45796]"

definition adv_resources :: jstring where
  "adv_resources = [47532, 49548, 49828, 32, 54869, 48372, 32, 46608, 45716, 32, 48276, 50948, 32,
     52629, 49548, 47484, 32, 44256, 47140, 54616, 49464, 50836]"

definition adv_high_risk :: jstring where
  \<comment> \<open>"high-risk elements were detected; a review is needed"\<close>
  "adv_high_risk = [44256, 50948, 54744, 32, 50836, 49548, 44032, 32, 44048, 51648, 46104, 50632,
     49845, 45768, 45796, 46, 32, 44160, 53664, 44032, 32, 54596, 50836, 54633, 45768, 45796, 46]"

definition complexity_conflict :: conflict where
  "complexity_conflict =
     \<lparr>conflict_type = ascii ''complexity'', message = adv_very_complex,
      suggestion = JUndefined, severity = JStr (ascii ''high'')\<rparr>"

definition duration_conflict :: conflict where
  "duration_conflict =
     \<lparr>conflict_type = ascii ''duration'', message = adv_long_running,
      suggestion = JUndefined, severity = JStr (ascii ''medium'')\<rparr>"

definition mismatch_conflict :: conflict where
  "mismatch_conflict =
     \<lparr>conflict_type = ascii ''priority_complexity_mismatch'', message = adv_urgent_complex,
      suggestion = JUndefined, severity = JStr (ascii ''high'')\<rparr>"

definition initialState :: "jstring \<Rightarrow> jstring \<Rightarrow> TaskCreationState" where
  "initialState inp uid =
     \<lparr>input = inp, userId = uid, extractedInfo = None, priorityAnalysis = None,
      needsHumanReview = False, st_conflicts = [], st_suggestions = [], finalTask = None,
      st_confidence = JNum (Fin 0), currentStep = ascii ''starting''\<rparr>"

definition extractInformation :: "js_runtime \<Rightarrow> gen_outcome \<Rightarrow> TaskCreationState \<Rightarrow> TaskCreationState" where
  "extractInformation rt reply state =
     (case reply of
        GenResponds response \<Rightarrow>
          (let extracted = parseJSON rt response
           in state\<lparr>extractedInfo := Some extracted,
                    st_confidence := js_or (get extracted ''confidence'') (JNum (double 0.5)),
                    currentStep := ascii ''information_extracted''\<rparr>)
      | GenFails \<Rightarrow>
          state\<lparr>extractedInfo := Some [(ascii ''title'', JStr (input state)),
                                        (ascii ''confidence'', JNum (double 0.2)),
                                        (ascii ''complexity'', JNum (Fin 2)),
                                        (ascii ''estimatedDuration'', JNum (Fin 30))],
                 st_confidence := JNum (double 0.2),
                 currentStep := ascii ''extraction_failed''\<rparr>)"

definition adv_priority_prompt :: "js_runtime \<Rightarrow> jsobj option \<Rightarrow> exn + jstring list" where
  \<comment> \<open>the interpolations of the prompt of \<^verbatim>\<open>analyzePriority\<close>; reading a property of an
     undefined \<^verbatim>\<open>info\<close> throws\<close>
  "adv_priority_prompt rt info =
     (case info of
        None \<Rightarrow> Inl TypeError
      | Some i \<Rightarrow>
          bindE (to_string rt (get i ''title'')) (\<lambda>t.
          bindE (to_string rt (get i ''complexity'')) (\<lambda>c.
          bindE (optional_join rt (get i ''urgencyKeywords'') (ascii '', '')) (\<lambda>j.
          bindE (to_string rt j) (\<lambda>u.
          bindE (to_string rt (get i ''estimatedDuration'')) (\<lambda>d.
            Inr [t, c, u, d]))))))"

definition analyzePriority :: "js_runtime \<Rightarrow> gen_outcome \<Rightarrow> TaskCreationState \<Rightarrow> exn + TaskCreationState" where
  "analyzePriority rt reply state =
     bindE (adv_priority_prompt rt (extractedInfo state)) (\<lambda>prompt.
       (case (case reply of
                GenFails \<Rightarrow> Inl ClientError
              | GenResponds response \<Rightarrow>
                  (let analysis = parseJSON rt response
                   in bindE (js_add rt (st_confidence state)
                                (js_or (get analysis ''confidence'') (JNum (double 0.3)))) (\<lambda>total.
                        Inr (state\<lparr>priorityAnalysis := Some analysis,
                                   st_confidence := JNum (Math_min (prim_number rt total) (Fin 1)),
                                   currentStep := ascii ''priority_analyzed''\<rparr>)))) of
          Inr next_state \<Rightarrow> Inr next_state
        | Inl e \<Rightarrow>
            Inr (state\<lparr>priorityAnalysis := Some [(ascii ''priority'', JStr (ascii ''medium'')),
                                                 (ascii ''confidence'', JNum (double 0.3)),
                                                 (ascii ''riskLevel'', JStr (ascii ''medium''))],
                       currentStep := ascii ''priority_analysis_failed''\<rparr>)))"

definition detectConflicts :: "js_runtime \<Rightarrow> TaskCreationState \<Rightarrow> exn + TaskCreationState" where
  "detectConflicts rt state =
     bindE (js_ge rt (opt_get (extractedInfo state) ''complexity'') (Fin 4)) (\<lambda>complexTask.
     bindE (js_gt rt (opt_get (extractedInfo state) ''estimatedDuration'') (Fin 240)) (\<lambda>longTask.
     bindE (if opt_get (priorityAnalysis state) ''priority'' = JStr (ascii ''urgent'')
            then js_ge rt (opt_get (extractedInfo state) ''complexity'') (Fin 4)
            else Inr False) (\<lambda>mismatch.
       Inr (state\<lparr>st_conflicts :=
                    (if complexTask then [complexity_conflict] else [])
                    @ (if longTask then [duration_conflict] else [])
                    @ (if mismatch then [mismatch_conflict] else []),
                  st_suggestions :=
                    st_suggestions state
                    @ (if complexTask then [adv_split_steps] else [])
                    @ (if longTask then [adv_schedule] else [])
                    @ (if mismatch then [adv_resources] else []),
                  currentStep := ascii ''conflicts_detected''\<rparr>))))"

definition adv_final_task :: "js_runtime \<Rightarrow> TaskCreationState \<Rightarrow> exn + task_object" where
  \<comment> \<open>the object literal \<^verbatim>\<open>finalTask\<close> of \<^verbatim>\<open>validateAndFinalize\<close>\<close>
  "adv_final_task rt state =
     bindE (mapPriority rt (js_or (opt_get (priorityAnalysis state) ''priority'')
                                  (JStr (ascii ''medium'')))) (\<lambda>prio.
     bindE (if truthy (opt_get (extractedInfo state) ''dueDate'')
            then bindE (new_Date (opt_get (extractedInfo state) ''dueDate'')) (\<lambda>d. Inr (Some d))
            else Inr None) (\<lambda>due.
       Inr \<lparr>title = js_or (opt_get (extractedInfo state) ''title'') (JStr (input state)),
            description = opt_get (extractedInfo state) ''description'',
            dueDate = due,
            priority = prio,
            tags = js_or (opt_get (extractedInfo state) ''tags'') (JArr []),
            estimatedDuration =
              js_or (opt_get (extractedInfo state) ''estimatedDuration'') (JNum (Fin 30)),
            aiMetadata =
              \<lparr>extractedEntities = js_or (opt_get (extractedInfo state) ''entities'') (JObj []),
               suggestedPriority = opt_get (priorityAnalysis state) ''priority'',
               priorityReasoning = opt_get (priorityAnalysis state) ''reasoning'',
               complexity = opt_get (extractedInfo state) ''complexity'',
               riskFactors = JUndefined,
               riskLevel = opt_get (priorityAnalysis state) ''riskLevel'',
               metaConfidence = st_confidence state,
               urgencyIndicators =
                 js_or (opt_get (extractedInfo state) ''urgencyKeywords'') (JArr []),
               fallback = JUndefined,
               workflowVersion = JStr (ascii ''advanced-v2''),
               processedSteps = JStr (currentStep state)\<rparr>\<rparr>))"

definition validateAndFinalize :: "js_runtime \<Rightarrow> TaskCreationState \<Rightarrow> exn + TaskCreationState" where
  "validateAndFinalize rt state =
     bindE (js_lt rt (st_confidence state) (double 0.6)) (\<lambda>lowConfidence.
     bindE (if opt_get (priorityAnalysis state) ''priority'' = JStr (ascii ''urgent'')
            then js_lt rt (st_confidence state) (double 0.8)
            else Inr False) (\<lambda>urgentUnsure.
     bindE (adv_final_task rt state) (\<lambda>built.
       (let highNoDueDate = (opt_get (priorityAnalysis state) ''priority'' = JStr (ascii ''high'')
                              \<and> \<not> truthy (opt_get (extractedInfo state) ''dueDate''));
            highRisk = list_ex (\<lambda>c. severity c = JStr (ascii ''high'')) (st_conflicts state)
        in Inr (state\<lparr>finalTask := Some built,
                     needsHumanReview := (lowConfidence \<or> urgentUnsure \<or> highRisk),
                     st_suggestions :=
                       st_suggestions state
                       @ (if lowConfidence then [msg_more_specific] else [])
                       @ (if urgentUnsure then [msg_urgent_recheck] else [])
                       @ (if highNoDueDate then [msg_set_due_date] else [])
                       @ (if highRisk then [adv_high_risk] else []),
                     currentStep := ascii ''finalized''\<rparr>)))))"

definition adv_createBasicTask :: "jstring \<Rightarrow> task_object" where
  "adv_createBasicTask inp =
     \<lparr>title = JStr (truncate50 inp),
      description = JStr inp,
      dueDate = None,
      priority = MEDIUM,
      tags = JArr [],
      estimatedDuration = JNum (Fin 30),
      aiMetadata =
        \<lparr>extractedEntities = JObj [],
         suggestedPriority = JUndefined,
         priorityReasoning = JUndefined,
         complexity = JUndefined,
         riskFactors = JUndefined,
         riskLevel = JUndefined,
         metaConfidence = JNum (double 0.3),
         urgencyIndicators = JUndefined,
         fallback = JBool True,
         workflowVersion = JUndefined,
         processedSteps = JUndefined\<rparr>\<rparr>"

definition adv_execute_try :: "js_runtime \<Rightarrow> gen_outcome \<Rightarrow> gen_outcome \<Rightarrow> jstring \<Rightarrow> jstring \<Rightarrow> exn + TaskCreationState" where
  "adv_execute_try rt reply1 reply2 inp uid =
     bindE (analyzePriority rt reply2 (extractInformation rt reply1 (initialState inp uid))) (\<lambda>s2.
     bindE (detectConflicts rt s2) (\<lambda>s3.
       validateAndFinalize rt s3))"

definition adv_execute :: "js_runtime \<Rightarrow> gen_outcome \<Rightarrow> gen_outcome \<Rightarrow> jstring \<Rightarrow> jstring \<Rightarrow> AdvancedResult" where
  "adv_execute rt reply1 reply2 inp uid =
     (case adv_execute_try rt reply1 reply2 inp uid of
        Inr state \<Rightarrow>
          \<lparr>task = finalTask state,
           needsConfirmation = needsHumanReview state,
           suggestions = st_suggestions state,
           conflicts = Some (st_conflicts state),
           confidence = st_confidence state,
           workflowPath = [currentStep state]\<rparr>
      | Inl error \<Rightarrow>
          \<lparr>task = Some (adv_createBasicTask inp),
           needsConfirmation = True,
           suggestions = [msg_workflow_error],
           conflicts = Some [],
           confidence = JNum (double 0.3),
           workflowPath = [ascii ''error'']\<rparr>)"

section \<open>AiService.fallbackParsing: the tag rule\<close>

definition is_js_whitespace :: "nat \<Rightarrow> bool" where
  \<comment> \<open>the code units matched by \<^verbatim>\<open>\s\<close>\<close>
  "is_js_whitespace c =
     (c \<in> {9, 10, 11, 12, 13, 32, 160, 5760, 8232, 8233, 8239, 8287, 12288, 65279}
      \<or> (8192 \<le> c \<and> c \<le> 8202))"

fun split_whitespace :: "bool \<Rightarrow> jstring \<Rightarrow> jstring list" where
  \<comment> \<open>\<^verbatim>\<open>input.split(/\s+/)\<close>; the flag says that the previous code unit was white space\<close>
  "split_whitespace in_gap [] = [[]]"
| "split_whitespace in_gap (c # cs) =
     (if is_js_whitespace c
      then (if in_gap then split_whitespace True cs else [] # split_whitespace True cs)
      else (case split_whitespace False cs of
              w # ws \<Rightarrow> (c # w) # ws
            | [] \<Rightarrow> [[c]]))"

definition fallbackParsing_tags :: "jstring \<Rightarrow> jstring list" where
  \<comment> \<open>\<^verbatim>\<open>words.filter((word) => word.startsWith("#")).map((tag) => tag.substring(1))\<close>\<close>
  "fallbackParsing_tags inp =
     map (drop 1) (filter (\<lambda>word. take 1 word = [35]) (split_whitespace False inp))"

section \<open>The specification's confidence formula\<close>

definition confidence_field :: "real option \<Rightarrow> jsval" where
  \<comment> \<open>a confidence property that is missing or holds a finite number\<close>
  "confidence_field c = (case c of None \<Rightarrow> JUndefined | Some x \<Rightarrow> JNum (Fin x))"

definition spec_aggregate :: "real option \<Rightarrow> real option \<Rightarrow> jsnum" where
  \<comment> \<open>as the specification words it: a missing confidence is 0.5, the sum (of doubles) is
     capped at 1\<close>
  "spec_aggregate e a =
     Math_min (num_add (case e of None \<Rightarrow> double 0.5 | Some x \<Rightarrow> Fin x)
                       (case a of None \<Rightarrow> double 0.5 | Some x \<Rightarrow> Fin x)) (Fin 1)"

definition or_half :: "real option \<Rightarrow> jsnum" where
  \<comment> \<open>what \<^verbatim>\<open>c || 0.5\<close> computes for a missing or finite \<^verbatim>\<open>c\<close>: zero is replaced as well\<close>
  "or_half c = (case c of None \<Rightarrow> double 0.5 | Some x \<Rightarrow> if x = 0 then double 0.5 else Fin x)"



section \<open>Concrete inputs\<close>

text \<open>
  A runtime for evaluating the workflows on concrete replies.  Its \<^verbatim>\<open>JSON.parse\<close> is the
  table of the reply texts used below with their decoded objects and throws on every other
  text; its \<^verbatim>\<open>toLowerCase\<close> lowers the letters A to Z.  The two number conversions are
  placeholders: in the evaluations below they only shape the text of a prompt, which the
  completion client of the model does not read.
\<close>

definition ascii_lower :: "jstring \<Rightarrow> jstring" where
  "ascii_lower s = map (\<lambda>c. if 65 \<le> c \<and> c \<le> 90 then c + 32 else c) s"

definition sample_runtime :: js_runtime where
  \<open>sample_runtime =
     \<lparr>JSON_parse = map_of
        [(ascii ''{}'', []),
         (ascii ''{"urgencyIndicators": "asap"}'',
            [(ascii ''urgencyIndicators'', JStr (ascii ''asap''))]),
         (ascii ''{"confidence": -5}'', [(ascii ''confidence'', JNum (Fin (-5)))]),
         (ascii ''{"confidence": 7}'', [(ascii ''confidence'', JNum (Fin 7))]),
         (ascii ''{"confidence": 0}'', [(ascii ''confidence'', JNum (Fin 0))]),
         (ascii ''{"confidence": 0.2}'', [(ascii ''confidence'', JNum (double 0.2))]),
         (ascii ''{"title": "Prepare slides"}'',
            [(ascii ''title'', JStr (ascii ''Prepare slides''))]),
         (ascii ''{"priority": "urgent", "confidence": 0.1}'',
            [(ascii ''priority'', JStr (ascii ''urgent'')), (ascii ''confidence'', JNum (double 0.1))]),
         (ascii ''{"priority": "URGENT", "confidence": 0.2}'',
            [(ascii ''priority'', JStr (ascii ''URGENT'')), (ascii ''confidence'', JNum (double 0.2))]),
         (ascii ''{"priority": "URGENT", "confidence": 0.9}'',
            [(ascii ''priority'', JStr (ascii ''URGENT'')), (ascii ''confidence'', JNum (double 0.9))]),
         (ascii ''{"complexity": 5, "confidence": 0.9}'',
            [(ascii ''complexity'', JNum (Fin 5)), (ascii ''confidence'', JNum (double 0.9))]),
         (ascii ''{"estimatedDuration": 300, "confidence": 0.9}'',
            [(ascii ''estimatedDuration'', JNum (Fin 300)), (ascii ''confidence'', JNum (double 0.9))]),
         (ascii ''{"priority": "medium", "confidence": 0.8}'',
            [(ascii ''priority'', JStr (ascii ''medium'')), (ascii ''confidence'', JNum (double 0.8))])],
      StringToNumber = (\<lambda>s. NaN),
      NumberToString = (\<lambda>n. []),
      toLowerCase = ascii_lower\<rparr>\<close>

definition meeting_input :: jstring where
  \<comment> \<open>the input of the tag scenario: two Hangul words, then \<^verbatim>\<open>#\<close> and two Hangul code units,
     then \<^verbatim>\<open>#\<close> and three\<close>
  "meeting_input = [54924, 51032, 32, 51456, 48708, 32, 35, 44596, 44553, 32, 35, 48372, 44256, 49436]"

definition sample_state :: TaskCreationState where
  "sample_state =
     (initialState (ascii ''x'') [])
       \<lparr>extractedInfo := Some [], priorityAnalysis := Some [], st_confidence := JNum (double 0.5)\<rparr>"

definition long_task_state :: TaskCreationState where
  \<comment> \<open>the state after the first two steps when the model reports a duration of 300 minutes
     and then priority \<^verbatim>\<open>medium\<close>\<close>
  \<open>long_task_state =
     projr (analyzePriority sample_runtime
              (GenResponds (ascii ''{"priority": "medium", "confidence": 0.8}''))
              (extractInformation sample_runtime
                 (GenResponds (ascii ''{"estimatedDuration": 300, "confidence": 0.9}''))
                 (initialState (ascii ''x'') [])))\<close>

section \<open>Evaluation and elimination rules\<close>

lemma binade_numeral:
  "binade (numeral k) x =
     (if x < 1 then binade (pred_numeral k) (2 * x) - 1
      else if 2 \<le> x then binade (pred_numeral k) (x / 2) + 1
      else 0)"
  by (simp add: numeral_eq_Suc)

lemmas round64_eval = round64_def round_half_even_def pow2_def binade_numeral

lemma double_values:
  "double 0.1 = Fin (3602879701896397 / 36028797018963968)"
  "double 0.2 = Fin (3602879701896397 / 18014398509481984)"
  "double 0.3 = Fin (5404319552844595 / 18014398509481984)"
  "double 0.5 = Fin (1 / 2)"
  "double 0.6 = Fin (5404319552844595 / 9007199254740992)"
  "double 0.7 = Fin (3152519739159347 / 4503599627370496)"
  "double 0.8 = Fin (3602879701896397 / 4503599627370496)"
  "double 0.9 = Fin (8106479329266893 / 9007199254740992)"
  "double (1 / 5) = Fin (3602879701896397 / 18014398509481984)"
  "double (1 / 2) = Fin (1 / 2)"
  "double (3 / 5) = Fin (5404319552844595 / 9007199254740992)"
  "double (4 / 5) = Fin (3602879701896397 / 4503599627370496)"
  by (simp_all add: double_def round64_eval Let_def)

lemmas double_eval = double_values round64_eval

lemmas js_defs = bindE_def get_def put_def js_or_def to_string_def to_number_def js_add_def
  js_lt_def js_gt_def js_ge_def num_gt_def num_ge_def num_le_def Math_min_def ascii_def Let_def
  double_eval

lemmas tc_defs = execute_def execute_try_def extractDetailedInformation_def parseJSON_def
  match_braces_def calculateExtractionConfidence_def add_if_def length_exceeds_def
  analyzeTaskComplexity_def
  priority_prompt_def optional_join_def validateAndSuggest_def overall_confidence_def
  final_task_def mapPriority_def new_Date_def fallbackExtraction_def fallbackPriorityAnalysis_def
  truncate50_def createBasicTask_def

lemmas adv_defs = adv_execute_def adv_execute_try_def initialState_def extractInformation_def
  parseJSON_def match_braces_def adv_priority_prompt_def optional_join_def analyzePriority_def
  detectConflicts_def validateAndFinalize_def adv_final_task_def opt_get_def mapPriority_def
  new_Date_def truncate50_def adv_createBasicTask_def

lemmas sample_defs = sample_runtime_def ascii_lower_def

lemma bindE_InrE:
  assumes "bindE m f = Inr y"
  obtains x where "m = Inr x" and "f x = Inr y"
  using assms by (cases m) (simp_all add: bindE_def)

lemma validateAndSuggest_InrE:
  assumes "validateAndSuggest rt ei an = Inr r"
  obtains c complexTask longTask t where
    "overall_confidence rt ei an = Inr c"
    and "js_ge rt (get ei ''complexity'') (Fin 4) = Inr complexTask"
    and "js_gt rt (get ei ''estimatedDuration'') (Fin 240) = Inr longTask"
    and "final_task rt ei an c = Inr t"
    and "r = \<lparr>task = Some t,
              needsConfirmation =
                (num_lt c (double 0.6)
                 \<or> (get an ''priority'' = JStr (ascii ''urgent'') \<and> num_lt c (double 0.8))
                 \<or> longTask),
              suggestions =
                (if num_lt c (double 0.6) then [msg_more_specific] else [])
                @ (if get an ''priority'' = JStr (ascii ''urgent'') \<and> num_lt c (double 0.8)
                   then [msg_urgent_recheck] else [])
                @ (if get an ''priority'' = JStr (ascii ''high'') \<and> \<not> truthy (get ei ''dueDate'')
                   then [msg_set_due_date] else [])
                @ (if complexTask then [msg_split_subtasks] else []),
              conflicts = Some (if longTask then [resource_conflict] else []),
              confidence = JNum c\<rparr>"
  using assms unfolding validateAndSuggest_def Let_def
  by (elim bindE_InrE) auto

lemma validateAndFinalize_InrE:
  assumes "validateAndFinalize rt s = Inr s'"
  obtains lowConfidence urgentUnsure t where
    "js_lt rt (st_confidence s) (double 0.6) = Inr lowConfidence"
    and "(if opt_get (priorityAnalysis s) ''priority'' = JStr (ascii ''urgent'')
          then js_lt rt (st_confidence s) (double 0.8) else Inr False) = Inr urgentUnsure"
    and "adv_final_task rt s = Inr t"
    and "s' = s\<lparr>finalTask := Some t,
                 needsHumanReview :=
                   (lowConfidence \<or> urgentUnsure
                    \<or> list_ex (\<lambda>c. severity c = JStr (ascii ''high'')) (st_conflicts s)),
                 st_suggestions :=
                   st_suggestions s
                   @ (if lowConfidence then [msg_more_specific] else [])
                   @ (if urgentUnsure then [msg_urgent_recheck] else [])
                   @ (if opt_get (priorityAnalysis s) ''priority'' = JStr (ascii ''high'')
                         \<and> \<not> truthy (opt_get (extractedInfo s) ''dueDate'')
                      then [msg_set_due_date] else [])
                   @ (if list_ex (\<lambda>c. severity c = JStr (ascii ''high'')) (st_conflicts s)
                      then [adv_high_risk] else []),
                 currentStep := ascii ''finalized''\<rparr>"
  using assms unfolding validateAndFinalize_def Let_def
  by (elim bindE_InrE) auto

lemma detectConflicts_InrE:
  assumes "detectConflicts rt s = Inr s'"
  obtains complexTask longTask mismatch where
    "js_ge rt (opt_get (extractedInfo s) ''complexity'') (Fin 4) = Inr complexTask"
    and "js_gt rt (opt_get (extractedInfo s) ''estimatedDuration'') (Fin 240) = Inr longTask"
    and "mismatch = (opt_get (priorityAnalysis s) ''priority'' = JStr (ascii ''urgent'') \<and> complexTask)"
    and "s' = s\<lparr>st_conflicts :=
                   (if complexTask then [complexity_conflict] else [])
                   @ (if longTask then [duration_conflict] else [])
                   @ (if mismatch then [mismatch_conflict] else []),
                 st_suggestions :=
                   st_suggestions s
                   @ (if complexTask then [adv_split_steps] else [])
                   @ (if longTask then [adv_schedule] else [])
                   @ (if mismatch then [adv_resources] else []),
                 currentStep := ascii ''conflicts_detected''\<rparr>"
  using assms unfolding detectConflicts_def
  by (elim bindE_InrE) (auto split: if_splits)

lemma execute_cases:
  obtains (degraded) e where "execute_try rt reply1 reply2 inp = Inl e"
      and "execute rt reply1 reply2 inp uid =
            \<lparr>task = Some (createBasicTask inp), needsConfirmation = True,
             suggestions = [msg_workflow_error], conflicts = None, confidence = JNum (double 0.3)\<rparr>"
    | (validated) an where
        "analyzeTaskComplexity rt reply2 (extractDetailedInformation rt reply1 inp) = Inr an"
      and "validateAndSuggest rt (extractDetailedInformation rt reply1 inp) an
            = Inr (execute rt reply1 reply2 inp uid)"
proof (cases "execute_try rt reply1 reply2 inp")
  case (Inl e)
  then show ?thesis by (intro degraded [of e]) (simp_all add: execute_def)
next
  case (Inr v)
  then obtain an where
    "analyzeTaskComplexity rt reply2 (extractDetailedInformation rt reply1 inp) = Inr an"
    and "validateAndSuggest rt (extractDetailedInformation rt reply1 inp) an = Inr v"
    unfolding execute_try_def Let_def by (elim bindE_InrE)
  with Inr show ?thesis by (intro validated [of an]) (simp_all add: execute_def)
qed

lemma adv_execute_cases:
  obtains (degraded) e where "adv_execute_try rt reply1 reply2 inp uid = Inl e"
      and "adv_execute rt reply1 reply2 inp uid =
            \<lparr>task = Some (adv_createBasicTask inp), needsConfirmation = True,
             suggestions = [msg_workflow_error], conflicts = Some [],
             confidence = JNum (double 0.3), workflowPath = [ascii ''error'']\<rparr>"
    | (finalized) s2 s3 s4 where
        "analyzePriority rt reply2 (extractInformation rt reply1 (initialState inp uid)) = Inr s2"
      and "detectConflicts rt s2 = Inr s3"
      and "validateAndFinalize rt s3 = Inr s4"
      and "adv_execute rt reply1 reply2 inp uid =
            \<lparr>task = finalTask s4, needsConfirmation = needsHumanReview s4,
             suggestions = st_suggestions s4, conflicts = Some (st_conflicts s4),
             confidence = st_confidence s4, workflowPath = [currentStep s4]\<rparr>"
proof (cases "adv_execute_try rt reply1 reply2 inp uid")
  case (Inl e)
  then show ?thesis by (intro degraded [of e]) (simp_all add: adv_execute_def)
next
  case (Inr v)
  then obtain s2 s3 where
    "analyzePriority rt reply2 (extractInformation rt reply1 (initialState inp uid)) = Inr s2"
    and "detectConflicts rt s2 = Inr s3"
    and "validateAndFinalize rt s3 = Inr v"
    unfolding adv_execute_try_def by (elim bindE_InrE)
  with Inr show ?thesis by (intro finalized [of s2 s3 v]) (simp_all add: adv_execute_def)
qed

section \<open>Bounds on the confidences\<close>


























section \<open>The fields of the final task\<close>

lemma long_duration_read:
  assumes "js_gt rt (js_or v (JNum (Fin 30))) (Fin 240) = Inr True"
  shows "js_gt rt v (Fin 240) = Inr True"
proof (cases "truthy v")
  case True
  with assms show ?thesis by (simp add: js_or_def)
next
  case False
  with assms show ?thesis
    by (simp add: js_or_def js_gt_def to_number_def bindE_def num_gt_def)
qed

lemma final_task_fields:
  assumes "final_task rt ei an c = Inr t"
  shows "estimatedDuration t = js_or (get ei ''estimatedDuration'') (JNum (Fin 30))"
    and "suggestedPriority (aiMetadata t) = get an ''priority''"
    and "mapPriority rt (get an ''priority'') = Inr (priority t)"
  using assms unfolding final_task_def
  by (elim bindE_InrE; auto)+

lemma adv_final_task_fields:
  assumes "adv_final_task rt s = Inr t"
  shows "estimatedDuration t
           = js_or (opt_get (extractedInfo s) ''estimatedDuration'') (JNum (Fin 30))"
    and "suggestedPriority (aiMetadata t) = opt_get (priorityAnalysis s) ''priority''"
    and "mapPriority rt (js_or (opt_get (priorityAnalysis s) ''priority'')
                               (JStr (ascii ''medium''))) = Inr (priority t)"
  using assms unfolding adv_final_task_def
  by (elim bindE_InrE; auto)+

lemma mapPriority_urgent:
  assumes "toLowerCase rt (ascii ''urgent'') = ascii ''urgent''"
  shows "mapPriority rt (js_or (JStr (ascii ''urgent'')) d) = Inr URGENT"
  using assms by (simp add: mapPriority_def js_or_def ascii_def)
section \<open>Long durations\<close>

lemma validateAndFinalize_keeps:
  assumes "validateAndFinalize rt s = Inr s'"
  shows "st_conflicts s' = st_conflicts s"
    and "\<exists>t. adv_final_task rt s = Inr t \<and> finalTask s' = Some t"
  using assms by (elim validateAndFinalize_InrE; simp)+

lemma finalize_duration_only:
  assumes final: "validateAndFinalize rt s3 = Inr s4"
    and sole: "st_conflicts s3 = [duration_conflict]"
    and floor: "js_ge rt (st_confidence s4) (double 0.6) = Inr True"
    and calm: "opt_get (priorityAnalysis s3) ''priority'' \<noteq> JStr (ascii ''urgent'')"
  shows "\<not> needsHumanReview s4"
proof -
  from final floor have "js_lt rt (st_confidence s3) (double 0.6) = Inr False"
    by (elim validateAndFinalize_InrE)
       (auto simp: js_ge_def js_lt_def bindE_def num_ge_def split: sum.splits)
  with final sole calm show ?thesis
    by (elim validateAndFinalize_InrE) (simp add: duration_conflict_def ascii_def)
qed

lemma adv_execute_long_duration:
  assumes built: "task (adv_execute rt reply1 reply2 inp uid) = Some t"
    and long: "js_gt rt (estimatedDuration t) (Fin 240) = Inr True"
  shows "\<exists>cs. conflicts (adv_execute rt reply1 reply2 inp uid) = Some cs
              \<and> duration_conflict \<in> set cs"
proof (cases rule: adv_execute_cases [of rt reply1 reply2 inp uid])
  case (degraded e)
  with built have "t = adv_createBasicTask inp" by simp
  with long show ?thesis
    by (simp add: adv_createBasicTask_def js_gt_def to_number_def bindE_def num_gt_def)
next
  case (finalized s2 s3 s4)
  from validateAndFinalize_keeps [OF finalized(3)] obtain t' where
    same: "st_conflicts s4 = st_conflicts s3"
    and t': "adv_final_task rt s3 = Inr t'" "finalTask s4 = Some t'"
    by auto
  from built finalized(4) t' have "t = t'" by simp
  with long adv_final_task_fields(1) [OF t'(1)]
  have "js_gt rt (opt_get (extractedInfo s3) ''estimatedDuration'') (Fin 240) = Inr True"
    by (simp add: long_duration_read)
  moreover from finalized(2) have "extractedInfo s3 = extractedInfo s2"
    by (elim detectConflicts_InrE) simp
  ultimately have "js_gt rt (opt_get (extractedInfo s2) ''estimatedDuration'') (Fin 240) = Inr True"
    by simp
  with finalized(2) have "duration_conflict \<in> set (st_conflicts s3)"
    by (elim detectConflicts_InrE) simp
  with same finalized(4) show ?thesis by simp
qed

lemma adv_execute_duration_only:
  assumes sole: "conflicts (adv_execute rt reply1 reply2 inp uid) = Some [duration_conflict]"
    and floor: "js_ge rt (confidence (adv_execute rt reply1 reply2 inp uid)) (double 0.6) = Inr True"
    and calm: "map_option (\<lambda>t. suggestedPriority (aiMetadata t))
                 (task (adv_execute rt reply1 reply2 inp uid)) \<noteq> Some (JStr (ascii ''urgent''))"
  shows "\<not> needsConfirmation (adv_execute rt reply1 reply2 inp uid)"
proof (cases rule: adv_execute_cases [of rt reply1 reply2 inp uid])
  case (degraded e)
  with sole show ?thesis by simp
next
  case (finalized s2 s3 s4)
  from validateAndFinalize_keeps [OF finalized(3)] obtain t where
    same: "st_conflicts s4 = st_conflicts s3"
    and t: "adv_final_task rt s3 = Inr t" "finalTask s4 = Some t"
    by auto
  from sole same finalized(4) have "st_conflicts s3 = [duration_conflict]" by simp
  moreover from floor finalized(4)
  have "js_ge rt (st_confidence s4) (double 0.6) = Inr True" by simp
  moreover from calm finalized(4) t(2) adv_final_task_fields(2) [OF t(1)]
  have "opt_get (priorityAnalysis s3) ''priority'' \<noteq> JStr (ascii ''urgent'')" by simp
  ultimately have "\<not> needsHumanReview s4"
    by (rule finalize_duration_only [OF finalized(3)])
  with finalized(4) show ?thesis by simp
qed

lemma adv_execute_level_not_urgent:
  assumes lower: "toLowerCase rt (ascii ''urgent'') = ascii ''urgent''"
    and level: "map_option priority (task (adv_execute rt reply1 reply2 inp uid)) \<noteq> Some URGENT"
  shows "map_option (\<lambda>t. suggestedPriority (aiMetadata t))
           (task (adv_execute rt reply1 reply2 inp uid)) \<noteq> Some (JStr (ascii ''urgent''))"
proof (cases rule: adv_execute_cases [of rt reply1 reply2 inp uid])
  case (degraded e)
  then show ?thesis by (simp add: adv_createBasicTask_def)
next
  case (finalized s2 s3 s4)
  from validateAndFinalize_keeps [OF finalized(3)] obtain t where
    t: "adv_final_task rt s3 = Inr t" "finalTask s4 = Some t"
    by auto
  from level finalized(4) t(2) have "priority t \<noteq> URGENT" by simp
  with adv_final_task_fields(3) [OF t(1)] mapPriority_urgent [OF lower]
  have "opt_get (priorityAnalysis s3) ''priority'' \<noteq> JStr (ascii ''urgent'')" by auto
  with finalized(4) t(2) adv_final_task_fields(2) [OF t(1)] show ?thesis by simp
qed

lemma execute_long_duration:
  assumes built: "task (execute rt reply1 reply2 inp uid) = Some t"
    and long: "js_gt rt (estimatedDuration t) (Fin 240) = Inr True"
  shows "needsConfirmation (execute rt reply1 reply2 inp uid)"
    and "conflicts (execute rt reply1 reply2 inp uid) = Some [resource_conflict]"
proof -
  have "needsConfirmation (execute rt reply1 reply2 inp uid)
        \<and> conflicts (execute rt reply1 reply2 inp uid) = Some [resource_conflict]"
  proof (cases rule: execute_cases [of rt reply1 reply2 inp uid])
    case (degraded e)
    with built have "t = createBasicTask inp" by simp
    with long show ?thesis
      by (simp add: createBasicTask_def js_gt_def to_number_def bindE_def num_gt_def)
  next
    case (validated an)
    from validated(2) obtain c complexTask longTask t' where
      lt: "js_gt rt (get (extractDetailedInformation rt reply1 inp) ''estimatedDuration'') (Fin 240)
            = Inr longTask"
      and t': "final_task rt (extractDetailedInformation rt reply1 inp) an c = Inr t'"
      and r: "task (execute rt reply1 reply2 inp uid) = Some t'"
         "needsConfirmation (execute rt reply1 reply2 inp uid)
            = (num_lt c (double 0.6)
               \<or> (get an ''priority'' = JStr (ascii ''urgent'') \<and> num_lt c (double 0.8))
               \<or> longTask)"
         "conflicts (execute rt reply1 reply2 inp uid)
            = Some (if longTask then [resource_conflict] else [])"
      by (elim validateAndSuggest_InrE) simp
    from built r(1) have "t = t'" by simp
    with long final_task_fields(1) [OF t'] lt have "longTask"
      by (auto dest: long_duration_read)
    with r show ?thesis by simp
  qed
  then show "needsConfirmation (execute rt reply1 reply2 inp uid)"
    and "conflicts (execute rt reply1 reply2 inp uid) = Some [resource_conflict]"
    by simp_all
qed

section \<open>The claims\<close>

text \<open>
  C1.  \<^verbatim>\<open>TaskCreationWorkflow.execute\<close> always returns a result: either its \<^verbatim>\<open>try\<close> block
  completes and its value is returned, or an exception escaped a stage and the result is the
  degraded one: the title is the input cut to 50 code units with an ellipsis (the whole input
  when it has at most 50), the priority is medium, tags and entities are empty,
  confirmation is needed, the confidence is 0.3 and the only suggestion is the error message.
\<close>

theorem execute_degraded_when_stage_throws:
  "(case execute_try rt reply1 reply2 inp of
      Inr validation \<Rightarrow> execute rt reply1 reply2 inp uid = validation
    | Inl e \<Rightarrow>
        (\<exists>t. execute rt reply1 reply2 inp uid =
                \<lparr>task = Some t, needsConfirmation = True, suggestions = [msg_workflow_error],
                 conflicts = None, confidence = JNum (double 0.3)\<rparr>
           \<and> title t = JStr (if length inp \<le> 50 then inp else take 50 inp @ ascii ''...'')
           \<and> priority t = MEDIUM
           \<and> tags t = JArr []
           \<and> extractedEntities (aiMetadata t) =
               JObj [(ascii ''people'', JArr []), (ascii ''places'', JArr []),
                     (ascii ''organizations'', JArr []), (ascii ''dates'', JArr [])]))"
  by (simp add: execute_def createBasicTask_def truncate50_def split: sum.split)

text \<open>
  An exception does escape a stage: when the first reply decodes to an object whose
  \<^verbatim>\<open>urgencyIndicators\<close> is a string, \<^verbatim>\<open>.join\<close> is not a function while the prompt of the
  second stage is built, outside that stage's \<^verbatim>\<open>try\<close>.
\<close>

theorem execute_degraded_witness:
  \<open>execute_try sample_runtime (GenResponds (ascii ''{"urgencyIndicators": "asap"}'')) GenFails
       (ascii ''call Bob'') = Inl TypeError
   \<and> needsConfirmation (execute sample_runtime
        (GenResponds (ascii ''{"urgencyIndicators": "asap"}'')) GenFails (ascii ''call Bob'')
        (ascii ''u1''))
   \<and> map_option title (task (execute sample_runtime
        (GenResponds (ascii ''{"urgencyIndicators": "asap"}'')) GenFails (ascii ''call Bob'')
        (ascii ''u1''))) = Some (JStr (ascii ''call Bob''))\<close>
proof -
  have thrown: \<open>execute_try sample_runtime (GenResponds (ascii ''{"urgencyIndicators": "asap"}''))
       GenFails (ascii ''call Bob'') = Inl TypeError\<close>
    by (simp add: js_defs tc_defs sample_defs)
  from execute_degraded_when_stage_throws
         [of sample_runtime \<open>GenResponds (ascii ''{"urgencyIndicators": "asap"}'')\<close> GenFails
             \<open>ascii ''call Bob''\<close> \<open>ascii ''u1''\<close>]
  show ?thesis
    unfolding thrown by (auto simp: ascii_def)
qed

text \<open>
  C2.  Whenever the comparison \<^verbatim>\<open>confidence < 0.6\<close> holds of the confidence that a finalizer
  or a whole pipeline returns, confirmation is required.  Both workflows.
\<close>

theorem confirmation_floor:
  "(validateAndSuggest rt ei an = Inr r \<longrightarrow> js_lt rt (confidence r) (double 0.6) = Inr True
      \<longrightarrow> needsConfirmation r)
   \<and> (validateAndFinalize rt s = Inr s' \<longrightarrow> js_lt rt (st_confidence s') (double 0.6) = Inr True
      \<longrightarrow> needsHumanReview s')
   \<and> (js_lt rt (confidence (execute rt reply1 reply2 inp uid)) (double 0.6) = Inr True
      \<longrightarrow> needsConfirmation (execute rt reply1 reply2 inp uid))
   \<and> (js_lt rt (confidence (adv_execute rt reply1 reply2 inp uid)) (double 0.6) = Inr True
      \<longrightarrow> needsConfirmation (adv_execute rt reply1 reply2 inp uid))"
proof -
  have gate: "needsConfirmation r'"
    if "validateAndSuggest rt ei' an' = Inr r'" and "js_lt rt (confidence r') (double 0.6) = Inr True"
    for ei' an' r'
    using that by (elim validateAndSuggest_InrE) (simp add: js_lt_def to_number_def bindE_def)
  have adv_gate: "needsHumanReview t'"
    if "validateAndFinalize rt t = Inr t'" and "js_lt rt (st_confidence t') (double 0.6) = Inr True"
    for t t'
    using that by (elim validateAndFinalize_InrE) simp
  have pipeline: "needsConfirmation (execute rt reply1 reply2 inp uid)"
    if "js_lt rt (confidence (execute rt reply1 reply2 inp uid)) (double 0.6) = Inr True"
  proof (cases rule: execute_cases [of rt reply1 reply2 inp uid])
    case (degraded e)
    then show ?thesis by simp
  next
    case (validated an)
    from gate [OF validated(2) that] show ?thesis .
  qed
  have adv_pipeline: "needsConfirmation (adv_execute rt reply1 reply2 inp uid)"
    if low: "js_lt rt (confidence (adv_execute rt reply1 reply2 inp uid)) (double 0.6) = Inr True"
  proof (cases rule: adv_execute_cases [of rt reply1 reply2 inp uid])
    case (degraded e)
    then show ?thesis by simp
  next
    case (finalized s2 s3 s4)
    from low finalized(4) have "js_lt rt (st_confidence s4) (double 0.6) = Inr True" by simp
    from adv_gate [OF finalized(3) this] finalized(4) show ?thesis by simp
  qed
  from gate adv_gate pipeline adv_pipeline show ?thesis by blast
qed

text \<open>
  An instance: extraction falls back (0.3) and the analysis reports 0.2, so the first
  workflow returns 0.5 and the second 0.4; a state of confidence 0.5 for the second
  finalizer.
\<close>

theorem confirmation_floor_witness:
  \<open>validateAndSuggest sample_runtime (fallbackExtraction (ascii ''x''))
       [(ascii ''confidence'', JNum (double 0.2))]
     = Inr (execute sample_runtime GenFails (GenResponds (ascii ''{"confidence": 0.2}''))
              (ascii ''x'') [])
   \<and> js_lt sample_runtime
        (confidence (execute sample_runtime GenFails (GenResponds (ascii ''{"confidence": 0.2}''))
           (ascii ''x'') [])) (double 0.6) = Inr True
   \<and> needsConfirmation (execute sample_runtime GenFails
        (GenResponds (ascii ''{"confidence": 0.2}'')) (ascii ''x'') [])
   \<and> validateAndFinalize sample_runtime sample_state
       = Inr (projr (validateAndFinalize sample_runtime sample_state))
   \<and> js_lt sample_runtime
        (st_confidence (projr (validateAndFinalize sample_runtime sample_state))) (double 0.6)
       = Inr True
   \<and> needsHumanReview (projr (validateAndFinalize sample_runtime sample_state))
   \<and> js_lt sample_runtime
        (confidence (adv_execute sample_runtime GenFails
           (GenResponds (ascii ''{"confidence": 0.2}'')) (ascii ''x'') [])) (double 0.6) = Inr True
   \<and> needsConfirmation (adv_execute sample_runtime GenFails
        (GenResponds (ascii ''{"confidence": 0.2}'')) (ascii ''x'') [])\<close>
proof -
  have h1: \<open>validateAndSuggest sample_runtime (fallbackExtraction (ascii ''x''))
       [(ascii ''confidence'', JNum (double 0.2))]
     = Inr (execute sample_runtime GenFails (GenResponds (ascii ''{"confidence": 0.2}''))
              (ascii ''x'') [])\<close>
    by (simp add: js_defs tc_defs sample_defs)
  have h2: \<open>js_lt sample_runtime
        (confidence (execute sample_runtime GenFails (GenResponds (ascii ''{"confidence": 0.2}''))
           (ascii ''x'') [])) (double 0.6) = Inr True\<close>
    by (simp add: js_defs tc_defs sample_defs)
  have h3: "validateAndFinalize sample_runtime sample_state
       = Inr (projr (validateAndFinalize sample_runtime sample_state))"
    by (simp add: js_defs adv_defs sample_defs sample_state_def)
  have h4: "js_lt sample_runtime
        (st_confidence (projr (validateAndFinalize sample_runtime sample_state))) (double 0.6)
       = Inr True"
    by (simp add: js_defs adv_defs sample_defs sample_state_def)
  have h5: \<open>js_lt sample_runtime
        (confidence (adv_execute sample_runtime GenFails
           (GenResponds (ascii ''{"confidence": 0.2}'')) (ascii ''x'') [])) (double 0.6) = Inr True\<close>
    by (simp add: js_defs adv_defs sample_defs)
  from confirmation_floor
         [of sample_runtime \<open>fallbackExtraction (ascii ''x'')\<close>
             \<open>[(ascii ''confidence'', JNum (double 0.2))]\<close>
             \<open>execute sample_runtime GenFails (GenResponds (ascii ''{"confidence": 0.2}''))
                (ascii ''x'') []\<close>
             sample_state \<open>projr (validateAndFinalize sample_runtime sample_state)\<close>
             GenFails \<open>GenResponds (ascii ''{"confidence": 0.2}'')\<close> \<open>ascii ''x''\<close> \<open>[]\<close>]
       h1 h2 h3 h4 h5
  show ?thesis by blast
qed




text \<open>
  Where the priority analysis of the advanced workflow falls back, the \<^verbatim>\<open>catch\<close> block of
  \<^verbatim>\<open>analyzePriority\<close> returns the state without the \<^verbatim>\<open>Math.min\<close> of its \<^verbatim>\<open>try\<close> block: an
  extraction confidence reported as 7 is then the confidence of the result.  The amended
  statement says nothing of these executions.
\<close>

lemma analyzePriority_catch_has_no_cap:
  \<open>confidence (adv_execute sample_runtime (GenResponds (ascii ''{"confidence": 7}'')) GenFails
      (ascii ''x'') []) = JNum (Fin 7)\<close>
  by (simp add: js_defs adv_defs sample_defs)

text \<open>
  C4, as amended.  The claim fails where a confidence of exactly 0 is reported: \<^verbatim>\<open>||\<close>
  replaces it by 0.5 as it replaces a missing one.  What holds, for confidences that are
  missing or finite numbers: the finalizer's confidence is \<^verbatim>\<open>Math.min(e + a, 1.0)\<close>, where
  \<open>e\<close> and \<open>a\<close> are the two confidences after a missing or zero confidence has been replaced
  by 0.5 and \<^verbatim>\<open>+\<close> is the addition of doubles (the exact sum rounded to the nearest double);
  this is the claim's formula whenever neither confidence is zero.
\<close>

theorem aggregate_formula_amended:
  assumes "get ei ''confidence'' = confidence_field e"
    and "get an ''confidence'' = confidence_field a"
    and "validateAndSuggest rt ei an = Inr r"
  shows "overall_confidence rt ei an = Inr (Math_min (num_add (or_half e) (or_half a)) (Fin 1))
     \<and> confidence r = JNum (Math_min (num_add (or_half e) (or_half a)) (Fin 1))
     \<and> (e \<noteq> Some 0 \<and> a \<noteq> Some 0 \<longrightarrow> confidence r = JNum (spec_aggregate e a))"
proof -
  have or_e: "js_or (confidence_field e) (JNum (double 0.5)) = JNum (or_half e)"
    by (cases e) (simp_all add: js_or_def confidence_field_def or_half_def double_values)
  have or_a: "js_or (confidence_field a) (JNum (double 0.5)) = JNum (or_half a)"
    by (cases a) (simp_all add: js_or_def confidence_field_def or_half_def double_values)
  have sum: "overall_confidence rt ei an
      = Inr (Math_min (num_add (or_half e) (or_half a)) (Fin 1))"
    using assms(1,2) or_e or_a
    by (simp add: overall_confidence_def js_add_def bindE_def)
  from assms(3) sum
  have conf: "confidence r = JNum (Math_min (num_add (or_half e) (or_half a)) (Fin 1))"
    by (elim validateAndSuggest_InrE) simp
  have "spec_aggregate e a = Math_min (num_add (or_half e) (or_half a)) (Fin 1)"
    if "e \<noteq> Some 0" and "a \<noteq> Some 0"
    using that by (cases e; cases a) (simp_all add: or_half_def spec_aggregate_def)
  with sum conf show ?thesis by simp
qed

text \<open>
  An instance where the rounding of the sum decides: a title of more than five code units
  gives the extraction confidence 0.5 + 0.2, the double 0.7; the analysis reports
  \<^verbatim>\<open>urgent\<close> with confidence 0.1.  The sum of the doubles 0.7 and 0.1 is the double below
  0.8 (0.7999999999999999), so the urgent gate asks for confirmation.
\<close>

theorem aggregate_formula_witness:
  \<open>get (extractDetailedInformation sample_runtime
          (GenResponds (ascii ''{"title": "Prepare slides"}'')) (ascii ''x'')) ''confidence''
     = confidence_field (Some (3152519739159347 / 4503599627370496))
   \<and> get [(ascii ''priority'', JStr (ascii ''urgent'')), (ascii ''confidence'', JNum (double 0.1))]
         ''confidence''
     = confidence_field (Some (3602879701896397 / 36028797018963968))
   \<and> validateAndSuggest sample_runtime
        (extractDetailedInformation sample_runtime
           (GenResponds (ascii ''{"title": "Prepare slides"}'')) (ascii ''x''))
        [(ascii ''priority'', JStr (ascii ''urgent'')), (ascii ''confidence'', JNum (double 0.1))]
     = Inr (execute sample_runtime (GenResponds (ascii ''{"title": "Prepare slides"}''))
              (GenResponds (ascii ''{"priority": "urgent", "confidence": 0.1}'')) (ascii ''x'') [])
   \<and> confidence (execute sample_runtime (GenResponds (ascii ''{"title": "Prepare slides"}''))
        (GenResponds (ascii ''{"priority": "urgent", "confidence": 0.1}'')) (ascii ''x'') [])
     = JNum (Fin (7205759403792793 / 9007199254740992))
   \<and> num_lt (Fin (7205759403792793 / 9007199254740992)) (double 0.8)
   \<and> needsConfirmation (execute sample_runtime
        (GenResponds (ascii ''{"title": "Prepare slides"}''))
        (GenResponds (ascii ''{"priority": "urgent", "confidence": 0.1}'')) (ascii ''x'') [])\<close>
proof -
  let ?ei = \<open>extractDetailedInformation sample_runtime
          (GenResponds (ascii ''{"title": "Prepare slides"}'')) (ascii ''x'')\<close>
  let ?an = "[(ascii ''priority'', JStr (ascii ''urgent'')),
              (ascii ''confidence'', JNum (double 0.1))]"
  let ?r = \<open>execute sample_runtime (GenResponds (ascii ''{"title": "Prepare slides"}''))
              (GenResponds (ascii ''{"priority": "urgent", "confidence": 0.1}'')) (ascii ''x'') []\<close>
  have h1: "get ?ei ''confidence''
      = confidence_field (Some (3152519739159347 / 4503599627370496))"
    by (simp add: js_defs tc_defs sample_defs confidence_field_def)
  have h2: "get ?an ''confidence''
      = confidence_field (Some (3602879701896397 / 36028797018963968))"
    by (simp add: get_def ascii_def confidence_field_def double_values)
  have h3: "validateAndSuggest sample_runtime ?ei ?an = Inr ?r"
    by (simp add: js_defs tc_defs sample_defs)
  have sum: "Math_min (num_add (or_half (Some (3152519739159347 / 4503599627370496)))
                 (or_half (Some (3602879701896397 / 36028797018963968)))) (Fin 1)
      = Fin (7205759403792793 / 9007199254740992)"
    by (simp add: or_half_def Math_min_def round64_eval Let_def)
  have below: "num_lt (Fin (7205759403792793 / 9007199254740992)) (double 0.8)"
    by (simp add: double_values)
  have confirm: "needsConfirmation ?r"
    by (simp add: js_defs tc_defs sample_defs)
  from aggregate_formula_amended [OF h1 h2 h3] h1 h2 h3 sum below confirm show ?thesis
    by simp
qed

text \<open>
  Extraction confidence 0.5 and a reported assessment confidence of 0: the finalizer, and
  the pipeline whose second reply is \<^verbatim>\<open>{"confidence": 0}\<close>, return 1 where the claim's
  formula gives 0.5.
\<close>

theorem aggregate_formula_counterexample:
  \<open>map_sum id confidence
      (validateAndSuggest sample_runtime [(ascii ''confidence'', confidence_field (Some (1 / 2)))]
         [(ascii ''confidence'', confidence_field (Some 0))]) = Inr (JNum (Fin 1))
   \<and> confidence (execute sample_runtime (GenResponds (ascii ''{}''))
        (GenResponds (ascii ''{"confidence": 0}'')) (ascii ''x'') []) = JNum (Fin 1)
   \<and> spec_aggregate (Some (1 / 2)) (Some 0) = Fin (1 / 2)\<close>
proof (intro conjI)
  show \<open>map_sum id confidence
      (validateAndSuggest sample_runtime [(ascii ''confidence'', confidence_field (Some (1 / 2)))]
         [(ascii ''confidence'', confidence_field (Some 0))]) = Inr (JNum (Fin 1))\<close>
    by (simp add: js_defs tc_defs sample_defs confidence_field_def)
  show \<open>confidence (execute sample_runtime (GenResponds (ascii ''{}''))
        (GenResponds (ascii ''{"confidence": 0}'')) (ascii ''x'') []) = JNum (Fin 1)\<close>
    by (simp add: js_defs tc_defs sample_defs)
  show "spec_aggregate (Some (1 / 2)) (Some 0) = Fin (1 / 2)"
    by (simp add: spec_aggregate_def Math_min_def round64_eval Let_def)
qed

text \<open>
  C5 (the code departs from the claim).  The level that the result carries is the one
  \<^verbatim>\<open>mapPriority\<close> computes, after \<^verbatim>\<open>toLowerCase\<close>; the gate compares the reported string with
  \<^verbatim>\<open>"urgent"\<close> as it is.  When the priority analysis reports \<^verbatim>\<open>URGENT\<close> in capitals with
  confidence 0.2 and the extraction confidence is 0.5, the task has the priority urgent and
  the confidence is 0.7, between 0.6 and 0.8, yet no confirmation is required and no
  suggestion is made.  Both workflows.
\<close>

theorem urgent_gate_misses_mapped_level:
  \<open>map_option priority (task (execute sample_runtime (GenResponds (ascii ''{}''))
       (GenResponds (ascii ''{"priority": "URGENT", "confidence": 0.2}'')) (ascii ''x'') []))
     = Some URGENT
   \<and> confidence (execute sample_runtime (GenResponds (ascii ''{}''))
       (GenResponds (ascii ''{"priority": "URGENT", "confidence": 0.2}'')) (ascii ''x'') [])
     = JNum (double 0.7)
   \<and> \<not> needsConfirmation (execute sample_runtime (GenResponds (ascii ''{}''))
       (GenResponds (ascii ''{"priority": "URGENT", "confidence": 0.2}'')) (ascii ''x'') [])
   \<and> suggestions (execute sample_runtime (GenResponds (ascii ''{}''))
       (GenResponds (ascii ''{"priority": "URGENT", "confidence": 0.2}'')) (ascii ''x'') []) = []
   \<and> map_option priority (task (adv_execute sample_runtime (GenResponds (ascii ''{}''))
       (GenResponds (ascii ''{"priority": "URGENT", "confidence": 0.2}'')) (ascii ''x'') []))
     = Some URGENT
   \<and> confidence (adv_execute sample_runtime (GenResponds (ascii ''{}''))
       (GenResponds (ascii ''{"priority": "URGENT", "confidence": 0.2}'')) (ascii ''x'') [])
     = JNum (double 0.7)
   \<and> \<not> needsConfirmation (adv_execute sample_runtime (GenResponds (ascii ''{}''))
       (GenResponds (ascii ''{"priority": "URGENT", "confidence": 0.2}'')) (ascii ''x'') [])
   \<and> suggestions (adv_execute sample_runtime (GenResponds (ascii ''{}''))
       (GenResponds (ascii ''{"priority": "URGENT", "confidence": 0.2}'')) (ascii ''x'') []) = []
   \<and> num_ge (double 0.7) (double 0.6) \<and> num_lt (double 0.7) (double 0.8)\<close>
proof -
  have first: \<open>execute sample_runtime (GenResponds (ascii ''{}''))
       (GenResponds (ascii ''{"priority": "URGENT", "confidence": 0.2}'')) (ascii ''x'') []
     = r \<Longrightarrow> map_option priority (task r) = Some URGENT \<and> confidence r = JNum (double 0.7)
         \<and> \<not> needsConfirmation r \<and> suggestions r = []\<close> for r
    by (auto simp add: js_defs tc_defs sample_defs)
  have second: \<open>adv_execute sample_runtime (GenResponds (ascii ''{}''))
       (GenResponds (ascii ''{"priority": "URGENT", "confidence": 0.2}'')) (ascii ''x'') []
     = r \<Longrightarrow> map_option priority (task r) = Some URGENT \<and> confidence r = JNum (double 0.7)
         \<and> \<not> needsConfirmation r \<and> suggestions r = []\<close> for r
    by (auto simp add: js_defs adv_defs sample_defs)
  have range: "num_ge (double 0.7) (double 0.6) \<and> num_lt (double 0.7) (double 0.8)"
    by (simp add: double_values num_ge_def)
  from first [OF refl] second [OF refl] range show ?thesis by simp
qed

text \<open>
  What the gate does for the string it tests: when the reported priority is exactly
  \<^verbatim>\<open>urgent\<close> and the returned confidence is at least 0.6 and below 0.8, confirmation is
  required and the suggestions hold the message that asks to check the urgent task again.
\<close>

lemma urgent_gate_on_exact_string:
  "(validateAndSuggest rt ei an = Inr r
      \<longrightarrow> get an ''priority'' = JStr (ascii ''urgent'')
      \<longrightarrow> js_ge rt (confidence r) (double 0.6) = Inr True
      \<longrightarrow> js_lt rt (confidence r) (double 0.8) = Inr True
      \<longrightarrow> needsConfirmation r \<and> msg_urgent_recheck \<in> set (suggestions r))
   \<and> (validateAndFinalize rt s = Inr s'
      \<longrightarrow> opt_get (priorityAnalysis s) ''priority'' = JStr (ascii ''urgent'')
      \<longrightarrow> js_ge rt (st_confidence s') (double 0.6) = Inr True
      \<longrightarrow> js_lt rt (st_confidence s') (double 0.8) = Inr True
      \<longrightarrow> needsHumanReview s' \<and> msg_urgent_recheck \<in> set (st_suggestions s'))
   \<and> (analyzeTaskComplexity rt reply2 (extractDetailedInformation rt reply1 inp) = Inr an2
      \<longrightarrow> get an2 ''priority'' = JStr (ascii ''urgent'')
      \<longrightarrow> js_ge rt (confidence (execute rt reply1 reply2 inp uid)) (double 0.6) = Inr True
      \<longrightarrow> js_lt rt (confidence (execute rt reply1 reply2 inp uid)) (double 0.8) = Inr True
      \<longrightarrow> needsConfirmation (execute rt reply1 reply2 inp uid)
          \<and> msg_urgent_recheck \<in> set (suggestions (execute rt reply1 reply2 inp uid)))
   \<and> (analyzePriority rt reply2 (extractInformation rt reply1 (initialState inp uid)) = Inr s2
      \<longrightarrow> opt_get (priorityAnalysis s2) ''priority'' = JStr (ascii ''urgent'')
      \<longrightarrow> js_ge rt (confidence (adv_execute rt reply1 reply2 inp uid)) (double 0.6) = Inr True
      \<longrightarrow> js_lt rt (confidence (adv_execute rt reply1 reply2 inp uid)) (double 0.8) = Inr True
      \<longrightarrow> needsConfirmation (adv_execute rt reply1 reply2 inp uid)
          \<and> msg_urgent_recheck \<in> set (suggestions (adv_execute rt reply1 reply2 inp uid)))"
proof -
  have gate: "needsConfirmation r' \<and> msg_urgent_recheck \<in> set (suggestions r')"
    if "validateAndSuggest rt ei' an' = Inr r'"
      and "get an' ''priority'' = JStr (ascii ''urgent'')"
      and "js_lt rt (confidence r') (double 0.8) = Inr True"
    for ei' an' r'
    using that by (elim validateAndSuggest_InrE) (simp add: js_lt_def to_number_def bindE_def)
  have adv_gate: "needsHumanReview t' \<and> msg_urgent_recheck \<in> set (st_suggestions t')"
    if "validateAndFinalize rt t = Inr t'"
      and "opt_get (priorityAnalysis t) ''priority'' = JStr (ascii ''urgent'')"
      and "js_lt rt (st_confidence t') (double 0.8) = Inr True"
    for t t'
    using that by (elim validateAndFinalize_InrE) simp
  have pipeline: "needsConfirmation (execute rt reply1 reply2 inp uid)
          \<and> msg_urgent_recheck \<in> set (suggestions (execute rt reply1 reply2 inp uid))"
    if an2: "analyzeTaskComplexity rt reply2 (extractDetailedInformation rt reply1 inp) = Inr an2"
      and urgent: "get an2 ''priority'' = JStr (ascii ''urgent'')"
      and floor: "js_ge rt (confidence (execute rt reply1 reply2 inp uid)) (double 0.6) = Inr True"
      and bar: "js_lt rt (confidence (execute rt reply1 reply2 inp uid)) (double 0.8) = Inr True"
  proof (cases rule: execute_cases [of rt reply1 reply2 inp uid])
    case (degraded e)
    with floor show ?thesis
      by (simp add: js_ge_def to_number_def bindE_def num_ge_def double_values)
  next
    case (validated an)
    with an2 have "an = an2" by simp
    with validated(2) urgent bar show ?thesis
      by (intro gate) simp_all
  qed
  have adv_pipeline: "needsConfirmation (adv_execute rt reply1 reply2 inp uid)
          \<and> msg_urgent_recheck \<in> set (suggestions (adv_execute rt reply1 reply2 inp uid))"
    if s2: "analyzePriority rt reply2 (extractInformation rt reply1 (initialState inp uid)) = Inr s2"
      and urgent: "opt_get (priorityAnalysis s2) ''priority'' = JStr (ascii ''urgent'')"
      and floor: "js_ge rt (confidence (adv_execute rt reply1 reply2 inp uid)) (double 0.6) = Inr True"
      and bar: "js_lt rt (confidence (adv_execute rt reply1 reply2 inp uid)) (double 0.8) = Inr True"
  proof (cases rule: adv_execute_cases [of rt reply1 reply2 inp uid])
    case (degraded e)
    with floor show ?thesis
      by (simp add: js_ge_def to_number_def bindE_def num_ge_def double_values)
  next
    case (finalized t2 s3 s4)
    with s2 have "t2 = s2" by simp
    with finalized(2) urgent
    have "opt_get (priorityAnalysis s3) ''priority'' = JStr (ascii ''urgent'')"
      by (elim detectConflicts_InrE) simp
    moreover from bar finalized(4) have "js_lt rt (st_confidence s4) (double 0.8) = Inr True"
      by simp
    ultimately have "needsHumanReview s4 \<and> msg_urgent_recheck \<in> set (st_suggestions s4)"
      using finalized(3) by (intro adv_gate)
    with finalized(4) show ?thesis by simp
  qed
  from gate adv_gate pipeline adv_pipeline show ?thesis by blast
qed

text \<open>
  C6 (the code departs from the claim).  \<^verbatim>\<open>detectConflicts\<close> compares the reported priority
  with \<^verbatim>\<open>"urgent"\<close> as it is, while the level of the task is the one \<^verbatim>\<open>mapPriority\<close> computes
  after \<^verbatim>\<open>toLowerCase\<close>.  When extraction yields complexity 5 and the priority analysis
  reports \<^verbatim>\<open>URGENT\<close> in capitals, the task has the priority urgent and the only conflict is
  the complexity conflict: the conflict \<^verbatim>\<open>priority_complexity_mismatch\<close> is not emitted.
  Confirmation is still required, through the complexity conflict.
\<close>

theorem mismatch_signal_misses_mapped_level:
  \<open>map_option priority (task (adv_execute sample_runtime
       (GenResponds (ascii ''{"complexity": 5, "confidence": 0.9}''))
       (GenResponds (ascii ''{"priority": "URGENT", "confidence": 0.9}'')) (ascii ''x'') []))
     = Some URGENT
   \<and> map_option (\<lambda>t. complexity (aiMetadata t)) (task (adv_execute sample_runtime
       (GenResponds (ascii ''{"complexity": 5, "confidence": 0.9}''))
       (GenResponds (ascii ''{"priority": "URGENT", "confidence": 0.9}'')) (ascii ''x'') []))
     = Some (JNum (Fin 5))
   \<and> conflicts (adv_execute sample_runtime
       (GenResponds (ascii ''{"complexity": 5, "confidence": 0.9}''))
       (GenResponds (ascii ''{"priority": "URGENT", "confidence": 0.9}'')) (ascii ''x'') [])
     = Some [complexity_conflict]
   \<and> mismatch_conflict \<notin> set [complexity_conflict]
   \<and> confidence (adv_execute sample_runtime
       (GenResponds (ascii ''{"complexity": 5, "confidence": 0.9}''))
       (GenResponds (ascii ''{"priority": "URGENT", "confidence": 0.9}'')) (ascii ''x'') [])
     = JNum (Fin 1)
   \<and> needsConfirmation (adv_execute sample_runtime
       (GenResponds (ascii ''{"complexity": 5, "confidence": 0.9}''))
       (GenResponds (ascii ''{"priority": "URGENT", "confidence": 0.9}'')) (ascii ''x'') [])\<close>
proof -
  have run: \<open>adv_execute sample_runtime
       (GenResponds (ascii ''{"complexity": 5, "confidence": 0.9}''))
       (GenResponds (ascii ''{"priority": "URGENT", "confidence": 0.9}'')) (ascii ''x'') [] = r
     \<Longrightarrow> map_option priority (task r) = Some URGENT
         \<and> map_option (\<lambda>t. complexity (aiMetadata t)) (task r) = Some (JNum (Fin 5))
         \<and> conflicts r = Some [complexity_conflict]
         \<and> confidence r = JNum (Fin 1) \<and> needsConfirmation r\<close> for r
    by (auto simp add: js_defs adv_defs sample_defs complexity_conflict_def)
  have distinct: "mismatch_conflict \<notin> set [complexity_conflict]"
    by (simp add: mismatch_conflict_def complexity_conflict_def ascii_def)
  from run [OF refl] distinct show ?thesis by simp
qed

text \<open>
  What the detector does for the string it tests: when the extracted complexity is at least
  4 and the reported priority is exactly \<^verbatim>\<open>urgent\<close>, \<^verbatim>\<open>detectConflicts\<close> completes unless the
  duration comparison throws and then emits the conflict \<^verbatim>\<open>priority_complexity_mismatch\<close>
  with severity \<^verbatim>\<open>high\<close>; the finalizer then requires review, and so does the result of the
  pipeline, whatever the confidence.
\<close>

lemma mismatch_on_exact_string:
  assumes "js_ge rt (opt_get (extractedInfo s) ''complexity'') (Fin 4) = Inr True"
    and "opt_get (priorityAnalysis s) ''priority'' = JStr (ascii ''urgent'')"
  shows "(\<not> coercion_throws (opt_get (extractedInfo s) ''estimatedDuration'')
           \<longrightarrow> (\<exists>s3. detectConflicts rt s = Inr s3))
     \<and> (detectConflicts rt s = Inr s3
           \<longrightarrow> mismatch_conflict \<in> set (st_conflicts s3)
             \<and> conflict_type mismatch_conflict = ascii ''priority_complexity_mismatch''
             \<and> severity mismatch_conflict = JStr (ascii ''high'')
             \<and> (validateAndFinalize rt s3 = Inr s4 \<longrightarrow> needsHumanReview s4))
     \<and> (analyzePriority rt reply2 (extractInformation rt reply1 (initialState inp uid)) = Inr s
           \<longrightarrow> needsConfirmation (adv_execute rt reply1 reply2 inp uid))"
proof (intro conjI impI)
  assume "\<not> coercion_throws (opt_get (extractedInfo s) ''estimatedDuration'')"
  with assms show "\<exists>s3. detectConflicts rt s = Inr s3"
    by (simp add: detectConflicts_def bindE_def js_gt_def to_number_def)
next
  show "conflict_type mismatch_conflict = ascii ''priority_complexity_mismatch''"
    and "severity mismatch_conflict = JStr (ascii ''high'')"
    by (simp_all add: mismatch_conflict_def)
next
  assume "detectConflicts rt s = Inr s3"
  with assms show "mismatch_conflict \<in> set (st_conflicts s3)"
    by (elim detectConflicts_InrE) simp
next
  assume detected: "detectConflicts rt s = Inr s3" and "validateAndFinalize rt s3 = Inr s4"
  from detected assms
  have "list_ex (\<lambda>c. severity c = JStr (ascii ''high'')) (st_conflicts s3)"
    by (elim detectConflicts_InrE) (simp add: mismatch_conflict_def)
  with \<open>validateAndFinalize rt s3 = Inr s4\<close> show "needsHumanReview s4"
    by (elim validateAndFinalize_InrE) simp
next
  assume reached:
    "analyzePriority rt reply2 (extractInformation rt reply1 (initialState inp uid)) = Inr s"
  show "needsConfirmation (adv_execute rt reply1 reply2 inp uid)"
  proof (cases rule: adv_execute_cases [of rt reply1 reply2 inp uid])
    case (degraded e)
    then show ?thesis by simp
  next
    case (finalized s2 t3 t4)
    with reached have "s2 = s" by simp
    with finalized(2) assms
    have "list_ex (\<lambda>c. severity c = JStr (ascii ''high'')) (st_conflicts t3)"
      by (elim detectConflicts_InrE) (simp add: mismatch_conflict_def)
    with finalized(3) have "needsHumanReview t4"
      by (elim validateAndFinalize_InrE) simp
    with finalized(4) show ?thesis by simp
  qed
qed

text \<open>
  The conflict detector belongs to the advanced workflow.  \<^verbatim>\<open>TaskCreationWorkflow\<close> has no
  such rule: on the same two replies its finalizer adds the advice to split the task and
  asks for no confirmation.
\<close>

lemma first_workflow_has_no_mismatch_rule:
  \<open>map_sum id (\<lambda>r. (confidence r, suggestions r, conflicts r, needsConfirmation r))
     (validateAndSuggest sample_runtime
        [(ascii ''complexity'', JNum (Fin 5)), (ascii ''confidence'', JNum (double 0.5))]
        [(ascii ''priority'', JStr (ascii ''urgent'')), (ascii ''confidence'', JNum (double 0.9))])
   = Inr (JNum (Fin 1), [msg_split_subtasks], Some [], False)\<close>
  by (simp add: js_defs tc_defs sample_defs)

text \<open>
  C7 (the code departs from the claim).  When both replies of the model hold no braces,
  \<^verbatim>\<open>parseJSON\<close> returns the empty object twice, extraction yields no title, and the task
  of the result has the title \<^verbatim>\<open>undefined\<close>, whatever the input text: no title is derived
  from the input.  The confidence is 1 and no confirmation is asked for.  The advanced
  workflow, on the same replies, puts the input text in the place of the missing title.
\<close>

theorem title_undefined_without_json:
  "map_option title (task (execute rt (GenResponds (ascii ''I cannot help with that.''))
      (GenResponds (ascii ''I cannot help with that.'')) inp uid)) = Some JUndefined
   \<and> confidence (execute rt (GenResponds (ascii ''I cannot help with that.''))
      (GenResponds (ascii ''I cannot help with that.'')) inp uid) = JNum (Fin 1)
   \<and> \<not> needsConfirmation (execute rt (GenResponds (ascii ''I cannot help with that.''))
      (GenResponds (ascii ''I cannot help with that.'')) inp uid)
   \<and> map_option title (task (adv_execute rt (GenResponds (ascii ''I cannot help with that.''))
      (GenResponds (ascii ''I cannot help with that.'')) inp uid)) = Some (JStr inp)"
  by (simp add: js_defs tc_defs adv_defs)

text \<open>
  C8, as amended.  The claim holds of the advanced workflow only.  There a task whose
  duration exceeds 240 minutes carries the conflict \<^verbatim>\<open>duration\<close> with severity \<^verbatim>\<open>medium\<close>, and a
  result of \<^verbatim>\<open>AdvancedTaskCreationWorkflow.execute\<close> whose sole conflict is that one, whose
  confidence is at least 0.6 and whose priority is not urgent (as reported, or as the level
  of the task) has \<^verbatim>\<open>needsConfirmation\<close> false.  In \<^verbatim>\<open>TaskCreationWorkflow\<close> a duration above 240
  minutes gives a conflict of type \<^verbatim>\<open>resource\<close> without a severity, and the result of
  \<^verbatim>\<open>execute\<close> always requires confirmation.  The statement is given for the steps and for the
  results of the two pipelines.
\<close>

theorem long_duration_amended:
  "(detectConflicts rt s = Inr s3
      \<longrightarrow> js_gt rt (opt_get (extractedInfo s) ''estimatedDuration'') (Fin 240) = Inr True
      \<longrightarrow> duration_conflict \<in> set (st_conflicts s3)
        \<and> conflict_type duration_conflict = ascii ''duration''
        \<and> severity duration_conflict = JStr (ascii ''medium'')
        \<and> (st_conflicts s3 = [duration_conflict]
            \<longrightarrow> validateAndFinalize rt s3 = Inr s4
            \<longrightarrow> js_ge rt (st_confidence s4) (double 0.6) = Inr True
            \<longrightarrow> opt_get (priorityAnalysis s3) ''priority'' \<noteq> JStr (ascii ''urgent'')
            \<longrightarrow> \<not> needsHumanReview s4))
   \<and> (task (adv_execute rt reply1 reply2 inp uid) = Some t
      \<longrightarrow> js_gt rt (estimatedDuration t) (Fin 240) = Inr True
      \<longrightarrow> (\<exists>cs. conflicts (adv_execute rt reply1 reply2 inp uid) = Some cs
                \<and> duration_conflict \<in> set cs))
   \<and> (conflicts (adv_execute rt reply1 reply2 inp uid) = Some [duration_conflict]
      \<longrightarrow> js_ge rt (confidence (adv_execute rt reply1 reply2 inp uid)) (double 0.6) = Inr True
      \<longrightarrow> map_option (\<lambda>t. suggestedPriority (aiMetadata t))
            (task (adv_execute rt reply1 reply2 inp uid)) \<noteq> Some (JStr (ascii ''urgent''))
      \<longrightarrow> \<not> needsConfirmation (adv_execute rt reply1 reply2 inp uid))
   \<and> (toLowerCase rt (ascii ''urgent'') = ascii ''urgent''
      \<longrightarrow> conflicts (adv_execute rt reply1 reply2 inp uid) = Some [duration_conflict]
      \<longrightarrow> js_ge rt (confidence (adv_execute rt reply1 reply2 inp uid)) (double 0.6) = Inr True
      \<longrightarrow> map_option priority (task (adv_execute rt reply1 reply2 inp uid)) \<noteq> Some URGENT
      \<longrightarrow> \<not> needsConfirmation (adv_execute rt reply1 reply2 inp uid))
   \<and> (validateAndSuggest rt ei an = Inr r
      \<longrightarrow> js_gt rt (get ei ''estimatedDuration'') (Fin 240) = Inr True
      \<longrightarrow> needsConfirmation r
        \<and> conflicts r = Some [resource_conflict]
        \<and> conflict_type resource_conflict = ascii ''resource''
        \<and> severity resource_conflict = JUndefined)
   \<and> (task (execute rt reply1 reply2 inp uid) = Some t'
      \<longrightarrow> js_gt rt (estimatedDuration t') (Fin 240) = Inr True
      \<longrightarrow> needsConfirmation (execute rt reply1 reply2 inp uid)
        \<and> conflicts (execute rt reply1 reply2 inp uid) = Some [resource_conflict])"
proof (intro conjI impI)
  show "conflict_type duration_conflict = ascii ''duration''"
    and "severity duration_conflict = JStr (ascii ''medium'')"
    by (simp_all add: duration_conflict_def)
  show "conflict_type resource_conflict = ascii ''resource''"
    and "severity resource_conflict = JUndefined"
    by (simp_all add: resource_conflict_def)
next
  assume "detectConflicts rt s = Inr s3"
    and "js_gt rt (opt_get (extractedInfo s) ''estimatedDuration'') (Fin 240) = Inr True"
  then show "duration_conflict \<in> set (st_conflicts s3)"
    by (elim detectConflicts_InrE) simp
next
  assume "validateAndFinalize rt s3 = Inr s4"
    and "st_conflicts s3 = [duration_conflict]"
    and "js_ge rt (st_confidence s4) (double 0.6) = Inr True"
    and "opt_get (priorityAnalysis s3) ''priority'' \<noteq> JStr (ascii ''urgent'')"
  then show "\<not> needsHumanReview s4"
    by (rule finalize_duration_only)
next
  assume "task (adv_execute rt reply1 reply2 inp uid) = Some t"
    and "js_gt rt (estimatedDuration t) (Fin 240) = Inr True"
  then show "\<exists>cs. conflicts (adv_execute rt reply1 reply2 inp uid) = Some cs
                \<and> duration_conflict \<in> set cs"
    by (rule adv_execute_long_duration)
next
  assume "conflicts (adv_execute rt reply1 reply2 inp uid) = Some [duration_conflict]"
    and "js_ge rt (confidence (adv_execute rt reply1 reply2 inp uid)) (double 0.6) = Inr True"
    and "map_option (\<lambda>t. suggestedPriority (aiMetadata t))
            (task (adv_execute rt reply1 reply2 inp uid)) \<noteq> Some (JStr (ascii ''urgent''))"
  then show "\<not> needsConfirmation (adv_execute rt reply1 reply2 inp uid)"
    by (rule adv_execute_duration_only)
next
  assume lower: "toLowerCase rt (ascii ''urgent'') = ascii ''urgent''"
    and sole: "conflicts (adv_execute rt reply1 reply2 inp uid) = Some [duration_conflict]"
    and floor: "js_ge rt (confidence (adv_execute rt reply1 reply2 inp uid)) (double 0.6) = Inr True"
    and level: "map_option priority (task (adv_execute rt reply1 reply2 inp uid)) \<noteq> Some URGENT"
  from sole floor adv_execute_level_not_urgent [OF lower level]
  show "\<not> needsConfirmation (adv_execute rt reply1 reply2 inp uid)"
    by (rule adv_execute_duration_only)
next
  assume "validateAndSuggest rt ei an = Inr r"
    and "js_gt rt (get ei ''estimatedDuration'') (Fin 240) = Inr True"
  then show "needsConfirmation r" and "conflicts r = Some [resource_conflict]"
    by (elim validateAndSuggest_InrE, simp)+
next
  assume "task (execute rt reply1 reply2 inp uid) = Some t'"
    and "js_gt rt (estimatedDuration t') (Fin 240) = Inr True"
  then show "needsConfirmation (execute rt reply1 reply2 inp uid)"
    and "conflicts (execute rt reply1 reply2 inp uid) = Some [resource_conflict]"
    by (rule execute_long_duration)+
qed

text \<open>
  An instance: a reported duration of 300 minutes with priority \<^verbatim>\<open>medium\<close>, in both
  workflows.  The advanced pipeline returns the sole conflict \<^verbatim>\<open>duration\<close>, confidence 1,
  the level medium and \<^verbatim>\<open>needsConfirmation\<close> false; the first pipeline requires confirmation.
\<close>

theorem long_duration_witness:
  \<open>detectConflicts sample_runtime long_task_state
      = Inr (projr (detectConflicts sample_runtime long_task_state))
   \<and> js_gt sample_runtime (opt_get (extractedInfo long_task_state) ''estimatedDuration'') (Fin 240)
      = Inr True
   \<and> st_conflicts (projr (detectConflicts sample_runtime long_task_state)) = [duration_conflict]
   \<and> validateAndFinalize sample_runtime (projr (detectConflicts sample_runtime long_task_state))
      = Inr (projr (validateAndFinalize sample_runtime
               (projr (detectConflicts sample_runtime long_task_state))))
   \<and> js_ge sample_runtime
        (st_confidence (projr (validateAndFinalize sample_runtime
           (projr (detectConflicts sample_runtime long_task_state))))) (double 0.6) = Inr True
   \<and> opt_get (priorityAnalysis (projr (detectConflicts sample_runtime long_task_state)))
        ''priority'' \<noteq> JStr (ascii ''urgent'')
   \<and> \<not> needsHumanReview (projr (validateAndFinalize sample_runtime
        (projr (detectConflicts sample_runtime long_task_state))))
   \<and> task (adv_execute sample_runtime
       (GenResponds (ascii ''{"estimatedDuration": 300, "confidence": 0.9}''))
       (GenResponds (ascii ''{"priority": "medium", "confidence": 0.8}'')) (ascii ''x'') []) = Some (the (task (adv_execute sample_runtime
       (GenResponds (ascii ''{"estimatedDuration": 300, "confidence": 0.9}''))
       (GenResponds (ascii ''{"priority": "medium", "confidence": 0.8}'')) (ascii ''x'') [])))
   \<and> js_gt sample_runtime (estimatedDuration (the (task (adv_execute sample_runtime
       (GenResponds (ascii ''{"estimatedDuration": 300, "confidence": 0.9}''))
       (GenResponds (ascii ''{"priority": "medium", "confidence": 0.8}'')) (ascii ''x'') [])))) (Fin 240) = Inr True
   \<and> conflicts (adv_execute sample_runtime
       (GenResponds (ascii ''{"estimatedDuration": 300, "confidence": 0.9}''))
       (GenResponds (ascii ''{"priority": "medium", "confidence": 0.8}'')) (ascii ''x'') []) = Some [duration_conflict]
   \<and> js_ge sample_runtime (confidence (adv_execute sample_runtime
       (GenResponds (ascii ''{"estimatedDuration": 300, "confidence": 0.9}''))
       (GenResponds (ascii ''{"priority": "medium", "confidence": 0.8}'')) (ascii ''x'') [])) (double 0.6) = Inr True
   \<and> map_option (\<lambda>t. suggestedPriority (aiMetadata t)) (task (adv_execute sample_runtime
       (GenResponds (ascii ''{"estimatedDuration": 300, "confidence": 0.9}''))
       (GenResponds (ascii ''{"priority": "medium", "confidence": 0.8}'')) (ascii ''x'') []))
        \<noteq> Some (JStr (ascii ''urgent''))
   \<and> toLowerCase sample_runtime (ascii ''urgent'') = ascii ''urgent''
   \<and> map_option priority (task (adv_execute sample_runtime
       (GenResponds (ascii ''{"estimatedDuration": 300, "confidence": 0.9}''))
       (GenResponds (ascii ''{"priority": "medium", "confidence": 0.8}'')) (ascii ''x'') [])) \<noteq> Some URGENT
   \<and> \<not> needsConfirmation (adv_execute sample_runtime
       (GenResponds (ascii ''{"estimatedDuration": 300, "confidence": 0.9}''))
       (GenResponds (ascii ''{"priority": "medium", "confidence": 0.8}'')) (ascii ''x'') [])
   \<and> validateAndSuggest sample_runtime
        [(ascii ''estimatedDuration'', JNum (Fin 300)), (ascii ''confidence'', JNum (double 0.5))]
        [(ascii ''priority'', JStr (ascii ''medium'')), (ascii ''confidence'', JNum (double 0.8))]
      = Inr (execute sample_runtime
       (GenResponds (ascii ''{"estimatedDuration": 300, "confidence": 0.9}''))
       (GenResponds (ascii ''{"priority": "medium", "confidence": 0.8}'')) (ascii ''x'') [])
   \<and> js_gt sample_runtime
        (get [(ascii ''estimatedDuration'', JNum (Fin 300)), (ascii ''confidence'', JNum (double 0.5))]
           ''estimatedDuration'') (Fin 240) = Inr True
   \<and> task (execute sample_runtime
       (GenResponds (ascii ''{"estimatedDuration": 300, "confidence": 0.9}''))
       (GenResponds (ascii ''{"priority": "medium", "confidence": 0.8}'')) (ascii ''x'') []) = Some (the (task (execute sample_runtime
       (GenResponds (ascii ''{"estimatedDuration": 300, "confidence": 0.9}''))
       (GenResponds (ascii ''{"priority": "medium", "confidence": 0.8}'')) (ascii ''x'') [])))
   \<and> js_gt sample_runtime (estimatedDuration (the (task (execute sample_runtime
       (GenResponds (ascii ''{"estimatedDuration": 300, "confidence": 0.9}''))
       (GenResponds (ascii ''{"priority": "medium", "confidence": 0.8}'')) (ascii ''x'') [])))) (Fin 240) = Inr True
   \<and> needsConfirmation (execute sample_runtime
       (GenResponds (ascii ''{"estimatedDuration": 300, "confidence": 0.9}''))
       (GenResponds (ascii ''{"priority": "medium", "confidence": 0.8}'')) (ascii ''x'') [])
   \<and> conflicts (execute sample_runtime
       (GenResponds (ascii ''{"estimatedDuration": 300, "confidence": 0.9}''))
       (GenResponds (ascii ''{"priority": "medium", "confidence": 0.8}'')) (ascii ''x'') []) = Some [resource_conflict]\<close>
proof -
  let ?s3 = "projr (detectConflicts sample_runtime long_task_state)"
  let ?s4 = "projr (validateAndFinalize sample_runtime ?s3)"
  let ?ei = "[(ascii ''estimatedDuration'', JNum (Fin 300)), (ascii ''confidence'', JNum (double 0.5))]"
  let ?an = "[(ascii ''priority'', JStr (ascii ''medium'')), (ascii ''confidence'', JNum (double 0.8))]"
  let ?a = \<open>adv_execute sample_runtime
       (GenResponds (ascii ''{"estimatedDuration": 300, "confidence": 0.9}''))
       (GenResponds (ascii ''{"priority": "medium", "confidence": 0.8}'')) (ascii ''x'') []\<close>
  let ?r = \<open>execute sample_runtime
       (GenResponds (ascii ''{"estimatedDuration": 300, "confidence": 0.9}''))
       (GenResponds (ascii ''{"priority": "medium", "confidence": 0.8}'')) (ascii ''x'') []\<close>
  have a1: "detectConflicts sample_runtime long_task_state = Inr ?s3"
    by (simp add: js_defs adv_defs sample_defs long_task_state_def)
  have a2: "js_gt sample_runtime (opt_get (extractedInfo long_task_state) ''estimatedDuration'')
        (Fin 240) = Inr True"
    by (simp add: js_defs adv_defs sample_defs long_task_state_def)
  have a3: "st_conflicts ?s3 = [duration_conflict]"
    by (simp add: js_defs adv_defs sample_defs long_task_state_def)
  have a4: "validateAndFinalize sample_runtime ?s3 = Inr ?s4"
    by (simp add: js_defs adv_defs sample_defs long_task_state_def duration_conflict_def)
  have a5: "js_ge sample_runtime (st_confidence ?s4) (double 0.6) = Inr True"
    by (simp add: js_defs adv_defs sample_defs long_task_state_def duration_conflict_def)
  have a6: "opt_get (priorityAnalysis ?s3) ''priority'' \<noteq> JStr (ascii ''urgent'')"
    by (simp add: js_defs adv_defs sample_defs long_task_state_def)
  have adv: \<open>?a = x
     \<Longrightarrow> task x = Some (the (task x))
         \<and> js_gt sample_runtime (estimatedDuration (the (task x))) (Fin 240) = Inr True
         \<and> conflicts x = Some [duration_conflict]
         \<and> js_ge sample_runtime (confidence x) (double 0.6) = Inr True
         \<and> map_option (\<lambda>t. suggestedPriority (aiMetadata t)) (task x)
              \<noteq> Some (JStr (ascii ''urgent''))
         \<and> map_option priority (task x) \<noteq> Some URGENT\<close> for x
    by (auto simp add: js_defs adv_defs sample_defs)
  have lower: "toLowerCase sample_runtime (ascii ''urgent'') = ascii ''urgent''"
    by (simp add: sample_defs ascii_def)
  have b1: "validateAndSuggest sample_runtime ?ei ?an = Inr ?r"
    by (simp add: js_defs tc_defs sample_defs)
  have b2: "js_gt sample_runtime (get ?ei ''estimatedDuration'') (Fin 240) = Inr True"
    by (simp add: js_defs)
  have exe: \<open>?r = y
     \<Longrightarrow> task y = Some (the (task y))
         \<and> js_gt sample_runtime (estimatedDuration (the (task y))) (Fin 240) = Inr True\<close> for y
    by (auto simp add: js_defs tc_defs sample_defs)
  from long_duration_amended [where rt = sample_runtime and s = long_task_state and ?s3.0 = ?s3
         and ?s4.0 = ?s4 and ei = ?ei and an = ?an and r = ?r
         and ?reply1.0 = \<open>GenResponds (ascii ''{"estimatedDuration": 300, "confidence": 0.9}'')\<close>
         and ?reply2.0 = \<open>GenResponds (ascii ''{"priority": "medium", "confidence": 0.8}'')\<close>
         and inp = \<open>ascii ''x''\<close> and uid = \<open>[]\<close>
         and t = \<open>the (task ?a)\<close> and t' = \<open>the (task ?r)\<close>]
       a1 a2 a3 a4 a5 a6 adv [OF refl] lower b1 b2 exe [OF refl]
  show ?thesis by simp
qed

text \<open>
  The same replies in the first workflow: the sole conflict is the \<^verbatim>\<open>resource\<close> conflict,
  which has no severity, the confidence is 1, the priority is medium, and confirmation is
  required.
\<close>

theorem long_duration_counterexample:
  \<open>conflicts (execute sample_runtime
       (GenResponds (ascii ''{"estimatedDuration": 300, "confidence": 0.9}''))
       (GenResponds (ascii ''{"priority": "medium", "confidence": 0.8}'')) (ascii ''x'') [])
     = Some [resource_conflict]
   \<and> conflict_type resource_conflict \<noteq> ascii ''duration''
   \<and> severity resource_conflict \<noteq> JStr (ascii ''medium'')
   \<and> confidence (execute sample_runtime
       (GenResponds (ascii ''{"estimatedDuration": 300, "confidence": 0.9}''))
       (GenResponds (ascii ''{"priority": "medium", "confidence": 0.8}'')) (ascii ''x'') [])
     = JNum (Fin 1)
   \<and> map_option priority (task (execute sample_runtime
       (GenResponds (ascii ''{"estimatedDuration": 300, "confidence": 0.9}''))
       (GenResponds (ascii ''{"priority": "medium", "confidence": 0.8}'')) (ascii ''x'') []))
     = Some MEDIUM
   \<and> needsConfirmation (execute sample_runtime
       (GenResponds (ascii ''{"estimatedDuration": 300, "confidence": 0.9}''))
       (GenResponds (ascii ''{"priority": "medium", "confidence": 0.8}'')) (ascii ''x'') [])\<close>
  by (simp add: js_defs tc_defs sample_defs resource_conflict_def)

text \<open>
  C9 (the code departs from the claim).  On the fallback path of
  \<^verbatim>\<open>TaskCreationWorkflow\<close> the tags are the empty list whatever the input holds: for the
  input of the scenario, with both model calls failing, the task has no tag.  The tag rule
  of the claim is the one of \<^verbatim>\<open>AiService.fallbackParsing\<close>, which yields the two tags.
\<close>

theorem fallback_tags_empty:
  "get (fallbackExtraction inp) ''tags'' = JArr []
   \<and> map_option tags (task (execute sample_runtime GenFails GenFails meeting_input uid))
       = Some (JArr [])
   \<and> fallbackParsing_tags meeting_input = [[44596, 44553], [48372, 44256, 49436]]"
proof (intro conjI)
  show "get (fallbackExtraction inp) ''tags'' = JArr []"
    by (simp add: fallbackExtraction_def get_def ascii_def)
  show "map_option tags (task (execute sample_runtime GenFails GenFails meeting_input uid))
       = Some (JArr [])"
    by (simp add: js_defs tc_defs sample_defs meeting_input_def kw_urgent_ko_def)
  show "fallbackParsing_tags meeting_input = [[44596, 44553], [48372, 44256, 49436]]"
    by (simp add: fallbackParsing_tags_def meeting_input_def is_js_whitespace_def)
qed

text \<open>
  C10.  The result of \<^verbatim>\<open>TaskCreationWorkflow.execute\<close> does not depend on the user id:
  for the same input and the same outcomes of the two calls of the completion client, any
  two user ids give the same result.
\<close>

theorem execute_independent_of_userId:
  "execute rt reply1 reply2 inp uid1 = execute rt reply1 reply2 inp uid2"
  by (simp add: execute_def)

end
